theory Spec2Isabelle
  imports Complex_Main
begin

section \<open>JavaScript numbers\<close>

text \<open>
  Every numeric value of the program is a JavaScript \<open>number\<close>. The embedding keeps the
  four kinds of value that the arithmetic of the program can tell apart: a finite number,
  the two infinities and NaN. Finite arithmetic is carried out in the reals (no rounding,
  no overflow, no negative zero); the special values follow the language: \<open>0/0\<close> and
  \<open>Infinity - Infinity\<close> are NaN, \<open>Math.log(0)\<close> is \<open>-Infinity\<close>, the logarithm and the
  square root of a negative number are NaN, every comparison with NaN is false, and
  \<open>Math.max\<close>/\<open>Math.min\<close> return NaN as soon as one argument is NaN.
  The only divisor of the program that can be zero is an array length, which is \<open>+0\<close>.
\<close>

datatype jsnum = Fin real | PInf | NInf | NaN

instantiation jsnum :: "{plus, minus, uminus, times, inverse, ord}"
begin

fun plus_jsnum :: "jsnum \<Rightarrow> jsnum \<Rightarrow> jsnum" where
  "Fin a + Fin b = Fin (a + b)"
| "NaN + _ = NaN"
| "_ + NaN = NaN"
| "PInf + NInf = NaN"
| "NInf + PInf = NaN"
| "PInf + _ = PInf"
| "_ + PInf = PInf"
| "NInf + _ = NInf"
| "_ + NInf = NInf"

fun uminus_jsnum :: "jsnum \<Rightarrow> jsnum" where
  "- Fin a = Fin (- a)"
| "- PInf = NInf"
| "- NInf = PInf"
| "- NaN = NaN"

definition minus_jsnum :: "jsnum \<Rightarrow> jsnum \<Rightarrow> jsnum" where
  "a - b = a + (- b)" for a b :: jsnum

text \<open>The sign of a product or quotient with an infinite operand.\<close>

fun signed_inf :: "real \<Rightarrow> jsnum" where
  "signed_inf s = (if 0 < s then PInf else if s < 0 then NInf else NaN)"

fun times_jsnum :: "jsnum \<Rightarrow> jsnum \<Rightarrow> jsnum" where
  "Fin a * Fin b = Fin (a * b)"
| "NaN * _ = NaN"
| "_ * NaN = NaN"
| "PInf * Fin b = signed_inf b"
| "NInf * Fin b = signed_inf (- b)"
| "Fin a * PInf = signed_inf a"
| "Fin a * NInf = signed_inf (- a)"
| "PInf * PInf = PInf"
| "NInf * NInf = PInf"
| "PInf * NInf = NInf"
| "NInf * PInf = NInf"

fun divide_jsnum :: "jsnum \<Rightarrow> jsnum \<Rightarrow> jsnum" where
  "divide_jsnum (Fin a) (Fin b) = (if b = 0 then signed_inf a else Fin (a / b))"
| "divide_jsnum NaN _ = NaN"
| "divide_jsnum _ NaN = NaN"
| "divide_jsnum (Fin a) PInf = Fin 0"
| "divide_jsnum (Fin a) NInf = Fin 0"
| "divide_jsnum PInf (Fin b) = (if 0 \<le> b then PInf else NInf)"
| "divide_jsnum NInf (Fin b) = (if 0 \<le> b then NInf else PInf)"
| "divide_jsnum PInf PInf = NaN"
| "divide_jsnum PInf NInf = NaN"
| "divide_jsnum NInf PInf = NaN"
| "divide_jsnum NInf NInf = NaN"

definition inverse_jsnum :: "jsnum \<Rightarrow> jsnum" where
  "inverse_jsnum a = divide (Fin 1) a"

fun less_jsnum :: "jsnum \<Rightarrow> jsnum \<Rightarrow> bool" where
  "Fin a < Fin b \<longleftrightarrow> a < b"
| "NaN < _ \<longleftrightarrow> False"
| "_ < NaN \<longleftrightarrow> False"
| "_ < NInf \<longleftrightarrow> False"
| "PInf < _ \<longleftrightarrow> False"
| "NInf < _ \<longleftrightarrow> True"
| "_ < PInf \<longleftrightarrow> True"

fun less_eq_jsnum :: "jsnum \<Rightarrow> jsnum \<Rightarrow> bool" where
  "Fin a \<le> Fin b \<longleftrightarrow> a \<le> b"
| "NaN \<le> _ \<longleftrightarrow> False"
| "_ \<le> NaN \<longleftrightarrow> False"
| "NInf \<le> _ \<longleftrightarrow> True"
| "_ \<le> PInf \<longleftrightarrow> True"
| "_ \<le> NInf \<longleftrightarrow> False"
| "PInf \<le> _ \<longleftrightarrow> False"

instance ..

end

text \<open>\<open>Number.isFinite\<close>: neither an infinity nor NaN.\<close>

fun isFinite :: "jsnum \<Rightarrow> bool" where
  "isFinite (Fin _) = True"
| "isFinite _ = False"

fun Math_abs :: "jsnum \<Rightarrow> jsnum" where
  "Math_abs (Fin a) = Fin \<bar>a\<bar>"
| "Math_abs PInf = PInf"
| "Math_abs NInf = PInf"
| "Math_abs NaN = NaN"

fun Math_max :: "jsnum \<Rightarrow> jsnum \<Rightarrow> jsnum" where
  "Math_max (Fin a) (Fin b) = Fin (max a b)"
| "Math_max NaN _ = NaN"
| "Math_max _ NaN = NaN"
| "Math_max PInf _ = PInf"
| "Math_max _ PInf = PInf"
| "Math_max NInf b = b"
| "Math_max a NInf = a"

fun Math_min :: "jsnum \<Rightarrow> jsnum \<Rightarrow> jsnum" where
  "Math_min (Fin a) (Fin b) = Fin (min a b)"
| "Math_min NaN _ = NaN"
| "Math_min _ NaN = NaN"
| "Math_min NInf _ = NInf"
| "Math_min _ NInf = NInf"
| "Math_min PInf b = b"
| "Math_min a PInf = a"

fun Math_log :: "jsnum \<Rightarrow> jsnum" where
  "Math_log (Fin a) = (if 0 < a then Fin (ln a) else if a = 0 then NInf else NaN)"
| "Math_log PInf = PInf"
| "Math_log NInf = NaN"
| "Math_log NaN = NaN"

fun Math_sqrt :: "jsnum \<Rightarrow> jsnum" where
  "Math_sqrt (Fin a) = (if 0 \<le> a then Fin (sqrt a) else NaN)"
| "Math_sqrt PInf = PInf"
| "Math_sqrt NInf = NaN"
| "Math_sqrt NaN = NaN"

fun Math_exp :: "jsnum \<Rightarrow> jsnum" where
  "Math_exp (Fin a) = Fin (exp a)"
| "Math_exp PInf = PInf"
| "Math_exp NInf = Fin 0"
| "Math_exp NaN = NaN"

fun Math_cos :: "jsnum \<Rightarrow> jsnum" where
  "Math_cos (Fin a) = Fin (cos a)"
| "Math_cos _ = NaN"

definition Math_PI :: jsnum where
  "Math_PI = Fin pi"

text \<open>\<open>Math.pow(x, 2)\<close>, the only exponent the program uses.\<close>

fun Math_pow2 :: "jsnum \<Rightarrow> jsnum" where
  "Math_pow2 (Fin a) = Fin (a * a)"
| "Math_pow2 PInf = PInf"
| "Math_pow2 NInf = PInf"
| "Math_pow2 NaN = NaN"

text \<open>
  The remainder operator \<open>%\<close> on integers: the result has the sign of the dividend and
  the magnitude of \<open>|a| mod |b|\<close>.
\<close>

definition js_rem :: "int \<Rightarrow> int \<Rightarrow> int" where
  "js_rem a b = (if 0 \<le> a then a mod \<bar>b\<bar> else - ((- a) mod \<bar>b\<bar>))"

section \<open>Deterministic random source\<close>

text \<open>
  The seed of the random source holds an integer: every construction site passes one (a
  literal, a character code or \<open>Date.now()\<close>). Integers below \<open>2^53\<close> in magnitude are
  exact in the language; beyond, the result of each operation is rounded to the nearest
  integer that has 53 significant bits, ties going to the even one. \<open>ulp_of n\<close> is the
  spacing of these integers at magnitude \<open>n\<close>, and \<open>double_int\<close> the rounding (magnitudes
  below \<open>2^1024\<close>).
\<close>

fun ulp_of :: "nat \<Rightarrow> nat" where
  "ulp_of n = (if n < 9007199254740992 then 1 else 2 * ulp_of (n div 2))"

declare ulp_of.simps [simp del]

definition double_int :: "int \<Rightarrow> int" where
  "double_int x =
     (let a = nat \<bar>x\<bar>;
          u = ulp_of a;
          q = a div u;
          r = a mod u;
          q1 = (if u < 2 * r \<or> (2 * r = u \<and> odd q) then q + 1 else q)
      in sgn x * int (q1 * u))"

text \<open>
  \<open>class SeededRandom\<close>: the only field is the seed.
  Each method returns its result together with the updated object.
\<close>

record SeededRandom =
  seed :: int

definition SeededRandom_new :: "int \<Rightarrow> SeededRandom" where
  "SeededRandom_new s = \<lparr>seed = s\<rparr>"

definition SeededRandom_next :: "SeededRandom \<Rightarrow> jsnum \<times> SeededRandom" where
  "SeededRandom_next r =
     (let s = js_rem (double_int (double_int (seed r * 9301) + 49297)) 233280
      in (Fin (of_int s) / Fin 233280, r\<lparr>seed := s\<rparr>))"

definition SeededRandom_range :: "jsnum \<Rightarrow> jsnum \<Rightarrow> SeededRandom \<Rightarrow> jsnum \<times> SeededRandom" where
  "SeededRandom_range lo hi r =
     (let (u, r1) = SeededRandom_next r
      in (lo + u * (hi - lo), r1))"

text \<open>Box-Muller transform on two successive draws.\<close>

definition SeededRandom_gaussian :: "jsnum \<Rightarrow> jsnum \<Rightarrow> SeededRandom \<Rightarrow> jsnum \<times> SeededRandom" where
  "SeededRandom_gaussian mean stdDev r =
     (let (u1, r1) = SeededRandom_next r;
          (u2, r2) = SeededRandom_next r1;
          z0 = Math_sqrt (Fin (- 2) * Math_log u1) * Math_cos (Fin 2 * Math_PI * u2)
      in (mean + z0 * stdDev, r2))"

text \<open>A sequence of method calls on one instance, and the values it returns.\<close>

datatype rng_call = Call_next | Call_range jsnum jsnum | Call_gaussian jsnum jsnum

fun rng_apply :: "rng_call \<Rightarrow> SeededRandom \<Rightarrow> jsnum \<times> SeededRandom" where
  "rng_apply Call_next r = SeededRandom_next r"
| "rng_apply (Call_range lo hi) r = SeededRandom_range lo hi r"
| "rng_apply (Call_gaussian mean stdDev) r = SeededRandom_gaussian mean stdDev r"

fun rng_run :: "rng_call list \<Rightarrow> SeededRandom \<Rightarrow> jsnum list" where
  "rng_run [] r = []"
| "rng_run (c # cs) r = (let (v, r1) = rng_apply c r in v # rng_run cs r1)"

section \<open>Enzyme kinetics model\<close>

text \<open>
  \<open>class EnzymeKineticsModel\<close>. The object holds a reference to the random source of the
  simulator that owns it, so both draw from one stream: the source is passed to the
  methods and returned updated instead of being stored twice.
\<close>

record EnzymeKineticsModel =
  time :: jsnum
  initialActivity :: jsnum
  deactivationRate :: jsnum

definition EnzymeKineticsModel_new :: EnzymeKineticsModel where
  "EnzymeKineticsModel_new = \<lparr>time = Fin 0, initialActivity = Fin 95, deactivationRate = Fin 0.002\<rparr>"

definition calculateActivity ::
  "EnzymeKineticsModel \<Rightarrow> jsnum \<Rightarrow> jsnum \<Rightarrow> jsnum \<Rightarrow> SeededRandom \<Rightarrow> jsnum \<times> SeededRandom" where
  "calculateActivity m hours temp ph r =
     (let tempFactor = (if Fin 37 < temp then Fin 1 + (temp - Fin 37) * Fin 0.05 else Fin 1);
          pHDeviation = Math_abs (ph - Fin 7.4);
          pHFactor = Fin 1 + pHDeviation * Fin 0.1;
          effectiveRate = deactivationRate m * tempFactor * pHFactor;
          activity = initialActivity m * Math_exp ((- effectiveRate) * hours);
          (noise, r1) = SeededRandom_gaussian (Fin 0) (Fin 0.5) r
      in (Math_max (Fin 0) (activity + noise), r1))"

definition reset :: "EnzymeKineticsModel \<Rightarrow> SeededRandom \<Rightarrow> EnzymeKineticsModel \<times> SeededRandom" where
  "reset m r =
     (let (a, r1) = SeededRandom_range (Fin 92) (Fin 98) r
      in (m\<lparr>time := Fin 0, initialActivity := a\<rparr>, r1))"

section \<open>Reactor data\<close>

text \<open>
  \<open>interface ReactorMetrics\<close>. A \<open>Date\<close> is its time value in milliseconds.
  \<open>metric_key\<close> is the type \<open>keyof ReactorMetrics\<close>.
\<close>

record ReactorMetrics =
  temperature :: jsnum
  pH :: jsnum
  pressure :: jsnum
  flowRate :: jsnum
  enzymeActivity :: jsnum
  substrateConcentration :: jsnum
  productYield :: jsnum
  dissolvedOxygen :: jsnum
  timestamp :: jsnum

datatype metric_key =
  Key_temperature | Key_pH | Key_pressure | Key_flowRate | Key_enzymeActivity
  | Key_substrateConcentration | Key_productYield | Key_dissolvedOxygen | Key_timestamp

datatype operating_mode = Batch | Continuous | Fed_batch

record ReactorConfig =
  targetTemperature :: jsnum
  targetPH :: jsnum
  targetPressure :: jsnum
  targetFlowRate :: jsnum
  minEnzymeActivity :: jsnum
  maxSubstrateConcentration :: jsnum
  operatingMode :: operating_mode
  autoOptimize :: bool

text \<open>
  \<open>new Date(v)\<close> keeps the integral part of a finite time value within the range of
  dates and is an invalid date (time value NaN) otherwise.
\<close>

definition trunc :: "real \<Rightarrow> real" where
  "trunc x = (if 0 \<le> x then of_int \<lfloor>x\<rfloor> else of_int \<lceil>x\<rceil>)"

fun Date_new :: "jsnum \<Rightarrow> jsnum" where
  "Date_new (Fin v) = (if \<bar>v\<bar> \<le> 8640000000000000 then Fin (trunc v) else NaN)"
| "Date_new _ = NaN"

section \<open>Reactor simulator\<close>

text \<open>
  \<open>class ReactorSimulator\<close>. The clock (\<open>Date.now()\<close>, \<open>new Date()\<close>) is an argument:
  \<open>now\<close> is the reading, in milliseconds, during the call. The constructor does not store
  its \<open>reactorId\<close> argument.
\<close>

record ReactorSimulator =
  sim_metrics :: ReactorMetrics
  sim_config :: ReactorConfig
  startTime :: jsnum
  enzymeModel :: EnzymeKineticsModel
  sim_random :: SeededRandom
  runningTime :: jsnum

definition initial_config :: ReactorConfig where
  "initial_config =
     \<lparr>targetTemperature = Fin 35, targetPH = Fin 7.4, targetPressure = Fin 1.2,
      targetFlowRate = Fin 150, minEnzymeActivity = Fin 70, maxSubstrateConcentration = Fin 20,
      operatingMode = Continuous, autoOptimize = True\<rparr>"

definition ReactorSimulator_new :: "string \<Rightarrow> int \<Rightarrow> int \<Rightarrow> ReactorSimulator" where
  "ReactorSimulator_new reactorId sd now =
     (let r0 = SeededRandom_new sd;
          em = EnzymeKineticsModel_new;
          (age, r1) = SeededRandom_range (Fin 2) (Fin 48) r0;
          start = Date_new (Fin (of_int now) - age * Fin 3600000);
          running = (Fin (of_int now) - start) / Fin 3600000;
          cfg = initial_config;
          (g1, r2) = SeededRandom_gaussian (Fin 0) (Fin 0.3) r1;
          (g2, r3) = SeededRandom_gaussian (Fin 0) (Fin 0.1) r2;
          (g3, r4) = SeededRandom_gaussian (Fin 0) (Fin 0.05) r3;
          (g4, r5) = SeededRandom_gaussian (Fin 0) (Fin 5) r4;
          (act, r6) = calculateActivity em running (targetTemperature cfg) (targetPH cfg) r5;
          (sub, r7) = SeededRandom_range (Fin 10) (Fin 15) r6;
          (yld, r8) = SeededRandom_range (Fin 75) (Fin 85) r7;
          (oxy, r9) = SeededRandom_range (Fin 85) (Fin 95) r8
      in \<lparr>sim_metrics =
            \<lparr>temperature = targetTemperature cfg + g1,
             pH = targetPH cfg + g2,
             pressure = targetPressure cfg + g3,
             flowRate = targetFlowRate cfg + g4,
             enzymeActivity = act,
             substrateConcentration = sub,
             productYield = yld,
             dissolvedOxygen = oxy,
             timestamp = Date_new (Fin (of_int now))\<rparr>,
          sim_config = cfg,
          startTime = start,
          enzymeModel = em,
          sim_random = r9,
          runningTime = running\<rparr>)"

text \<open>One time step. The result is the updated simulator; \<open>update\<close> returns a copy of its metrics.\<close>

definition update_sim :: "int \<Rightarrow> ReactorSimulator \<Rightarrow> ReactorSimulator" where
  "update_sim now s =
     (let running = runningTime s + Fin 1 / Fin 3600;
          m = sim_metrics s;
          cfg = sim_config s;
          tempError = targetTemperature cfg - temperature m;
          (g1, r1) = SeededRandom_gaussian (Fin 0) (Fin 0.05) (sim_random s);
          temp = temperature m + (tempError * Fin 0.02 + g1);
          pHError = targetPH cfg - pH m;
          (g2, r2) = SeededRandom_gaussian (Fin 0) (Fin 0.02) r1;
          ph = pH m + (pHError * Fin 0.01 + g2);
          targetPress = Fin 1.0 + (flowRate m / Fin 200) * Fin 0.4;
          (g3, r3) = SeededRandom_gaussian (Fin 0) (Fin 0.01) r2;
          press = pressure m + ((targetPress - pressure m) * Fin 0.05 + g3);
          (g4, r4) = SeededRandom_gaussian (Fin 0) (Fin 2) r3;
          flow = Math_max (Fin 0) (flowRate m + g4);
          (act, r5) = calculateActivity (enzymeModel s) running temp ph r4;
          consumptionRate = Fin 0.5 * (act / Fin 100) * (flow / Fin 150);
          (g5, r6) = SeededRandom_gaussian (Fin 0) (Fin 0.1) r5;
          sub = Math_max (Fin 5) (substrateConcentration m - consumptionRate * Fin 0.001 + g5);
          theoreticalYield = (act / Fin 100) * (sub / Fin 15) * Fin 90;
          (g6, r7) = SeededRandom_gaussian (Fin 0) (Fin 0.5) r6;
          yld = Math_max (Fin 0) (Math_min (Fin 100)
                  (productYield m + ((theoreticalYield - productYield m) * Fin 0.05 + g6)));
          (g7, r8) = SeededRandom_gaussian (Fin 0) (Fin 1) r7;
          oxy = Math_max (Fin 70) (Math_min (Fin 100) (dissolvedOxygen m + g7))
      in s\<lparr>sim_metrics :=
             \<lparr>temperature = temp, pH = ph, pressure = press, flowRate = flow,
              enzymeActivity = act, substrateConcentration = sub, productYield = yld,
              dissolvedOxygen = oxy, timestamp = Date_new (Fin (of_int now))\<rparr>,
           sim_random := r8,
           runningTime := running\<rparr>)"

definition update :: "int \<Rightarrow> ReactorSimulator \<Rightarrow> ReactorMetrics \<times> ReactorSimulator" where
  "update now s = (let s1 = update_sim now s in (sim_metrics s1, s1))"

definition adjustParameter :: "metric_key \<Rightarrow> jsnum \<Rightarrow> ReactorSimulator \<Rightarrow> ReactorSimulator" where
  "adjustParameter param v s =
     (let s1 = (if param = Key_temperature
                then s\<lparr>sim_config := (sim_config s)\<lparr>targetTemperature := v\<rparr>\<rparr> else s);
          s2 = (if param = Key_pH
                then s1\<lparr>sim_config := (sim_config s1)\<lparr>targetPH := v\<rparr>\<rparr> else s1);
          s3 = (if param = Key_flowRate
                then s2\<lparr>sim_metrics := (sim_metrics s2)\<lparr>flowRate := v\<rparr>\<rparr> else s2)
      in s3)"

definition getConfig :: "ReactorSimulator \<Rightarrow> ReactorConfig" where
  "getConfig s = sim_config s"

definition getCurrentMetrics :: "ReactorSimulator \<Rightarrow> ReactorMetrics" where
  "getCurrentMetrics s = sim_metrics s"

definition getRunningTime :: "ReactorSimulator \<Rightarrow> jsnum" where
  "getRunningTime s = runningTime s"

text \<open>The metrics returned by a run of ticks, one clock reading per tick.\<close>

fun trajectory :: "int list \<Rightarrow> ReactorSimulator \<Rightarrow> ReactorMetrics list" where
  "trajectory [] s = []"
| "trajectory (now # clock) s = (let (m, s1) = update now s in m # trajectory clock s1)"

section \<open>History points, alerts and predictions\<close>

text \<open>Decimal notation of an integer, as template strings print \<open>Date.now()\<close>.\<close>

definition digit_char :: "nat \<Rightarrow> char" where
  "digit_char d = ''0123456789'' ! d"

fun decimal :: "nat \<Rightarrow> string" where
  "decimal n = (if 10 \<le> n then decimal (n div 10) @ [digit_char (n mod 10)] else [digit_char n])"

definition Number_toString :: "int \<Rightarrow> string" where
  "Number_toString i = (if 0 \<le> i then decimal (nat i) else CHR ''-'' # decimal (nat \<bar>i\<bar>))"

text \<open>\<open>interface HistoricalDataPoint extends ReactorMetrics\<close>.\<close>

record HistoricalDataPoint = ReactorMetrics +
  point_id :: string

text \<open>
  \<open>interface Alert\<close>. The message text and the \<open>impact\<close> text of a parameter adjustment
  are built with \<open>toFixed\<close>; these two display strings are left out of the records.
\<close>

datatype alert_kind = Info | Warning | Critical | Success

record Alert =
  alert_id :: string
  alert_reactorId :: string
  alert_type :: alert_kind
  alert_timestamp :: jsnum
  alert_resolved :: bool
  alert_parameter :: "metric_key option"
  alert_value :: "jsnum option"

text \<open>\<open>xs.slice(-n)\<close>: the last \<open>n\<close> elements, all of them when there are fewer.\<close>

definition slice_last :: "nat \<Rightarrow> 'a list \<Rightarrow> 'a list" where
  "slice_last n xs = drop (length xs - n) xs"

text \<open>
  \<open>generateAlerts\<close>. \<open>now\<close> is the clock reading and \<open>rnd k\<close> the result of the \<open>k\<close>-th call
  of \<open>Math.random()\<close> made by this run; each alert that is raised makes one call.
\<close>

definition generateAlerts ::
  "string \<Rightarrow> 'a ReactorMetrics_scheme \<Rightarrow> HistoricalDataPoint list \<Rightarrow> int \<Rightarrow> (nat \<Rightarrow> real) \<Rightarrow> Alert list" where
  "generateAlerts reactorId m hist now rnd =
     (let a1 =
            (if Fin 0.3 < Math_abs (pH m - Fin 7.4)
             then [\<lparr>alert_id = ''alert-'' @ reactorId @ ''-ph-'' @ Number_toString now,
                    alert_reactorId = reactorId,
                    alert_type = (if Fin 0.5 < Math_abs (pH m - Fin 7.4) then Critical else Warning),
                    alert_timestamp = Date_new (Fin (of_int now) - Fin (rnd 0) * Fin 3600000),
                    alert_resolved = False,
                    alert_parameter = Some Key_pH,
                    alert_value = Some (pH m)\<rparr>]
             else []);
          n1 = length a1;
          a2 =
            (if enzymeActivity m < Fin 75
             then [\<lparr>alert_id = ''alert-'' @ reactorId @ ''-enzyme-'' @ Number_toString now,
                    alert_reactorId = reactorId,
                    alert_type = (if enzymeActivity m < Fin 70 then Critical else Warning),
                    alert_timestamp = Date_new (Fin (of_int now) - Fin (rnd n1) * Fin 7200000),
                    alert_resolved = False,
                    alert_parameter = Some Key_enzymeActivity,
                    alert_value = Some (enzymeActivity m)\<rparr>]
             else []);
          n2 = n1 + length a2;
          a3 =
            (if 10 \<le> length hist
             then (let recentTemps = map temperature (slice_last 10 hist);
                       tempVariance =
                         foldl (\<lambda>sum t. sum + Math_pow2 (t - temperature m)) (Fin 0) recentTemps
                           / Fin 10
                   in if Fin 0.5 < tempVariance
                      then [\<lparr>alert_id = ''alert-'' @ reactorId @ ''-temp-'' @ Number_toString now,
                             alert_reactorId = reactorId,
                             alert_type = Info,
                             alert_timestamp = Date_new (Fin (of_int now) - Fin (rnd n2) * Fin 1800000),
                             alert_resolved = True,
                             alert_parameter = Some Key_temperature,
                             alert_value = Some (temperature m)\<rparr>]
                      else [])
             else []);
          n3 = n2 + length a3;
          a4 =
            (if Fin 82 < productYield m
             then [\<lparr>alert_id = ''alert-'' @ reactorId @ ''-success-'' @ Number_toString now,
                    alert_reactorId = reactorId,
                    alert_type = Success,
                    alert_timestamp = Date_new (Fin (of_int now) - Fin (rnd n3) * Fin 900000),
                    alert_resolved = True,
                    alert_parameter = Some Key_productYield,
                    alert_value = Some (productYield m)\<rparr>]
             else [])
      in take 5 (a1 @ a2 @ a3 @ a4))"

datatype priority = Low | Medium | High

record ParameterAdjustment =
  adj_parameter :: metric_key
  currentValue :: jsnum
  suggestedValue :: jsnum
  adj_priority :: priority

record EnzymeDeactivation =
  hoursRemaining :: jsnum
  confidence :: jsnum
  suggestedAction :: "string option"

record YieldOptimization =
  currentYield :: jsnum
  predictedYield :: jsnum
  confidenceInterval :: "jsnum \<times> jsnum"
  recommendedChanges :: "ParameterAdjustment list"

record AnomalyDetection =
  score :: jsnum
  parameters :: "string list"

record AIPrediction =
  enzymeDeactivation :: EnzymeDeactivation
  yieldOptimization :: YieldOptimization
  anomalyDetection :: AnomalyDetection

text \<open>
  \<open>generateAIPredictions\<close>. Its random source is seeded with the clock reading \<open>now\<close>;
  the arguments \<open>history\<close> and \<open>runningTime\<close> are not read by the body.
\<close>

definition generateAIPredictions ::
  "'a ReactorMetrics_scheme \<Rightarrow> HistoricalDataPoint list \<Rightarrow> jsnum \<Rightarrow> int \<Rightarrow> AIPrediction" where
  "generateAIPredictions m hist running now =
     (let random = SeededRandom_new now;
          currentActivity = enzymeActivity m;
          deactivationRate = Fin 0.002;
          hoursTo70Percent = Math_log (currentActivity / Fin 70) / deactivationRate;
          currentYield = productYield m;
          optimizedTemp = Fin 35.8;
          optimizedPH = Fin 7.35;
          optimizedFlow = Fin 165;
          tempDelta = Math_abs (temperature m - optimizedTemp);
          pHDelta = Math_abs (pH m - optimizedPH);
          flowDelta = Math_abs (flowRate m - optimizedFlow);
          potentialGain = (tempDelta * Fin 2) + (pHDelta * Fin 15) + (flowDelta * Fin 0.05);
          predictedYield = Math_min (Fin 95) (currentYield + potentialGain);
          rec1 =
            (if Fin 0.5 < tempDelta
             then [\<lparr>adj_parameter = Key_temperature, currentValue = temperature m,
                    suggestedValue = optimizedTemp,
                    adj_priority = (if Fin 1 < tempDelta then High else Medium)\<rparr>]
             else []);
          rec2 =
            (if Fin 0.1 < pHDelta
             then [\<lparr>adj_parameter = Key_pH, currentValue = pH m,
                    suggestedValue = optimizedPH,
                    adj_priority = (if Fin 0.3 < pHDelta then High else Medium)\<rparr>]
             else []);
          rec3 =
            (if Fin 10 < flowDelta
             then [\<lparr>adj_parameter = Key_flowRate, currentValue = flowRate m,
                    suggestedValue = optimizedFlow, adj_priority = Low\<rparr>]
             else []);
          recommendations = rec1 @ rec2 @ rec3;
          anomalyScore =
            Math_max (Fin 0)
              (Math_min (Fin 1)
                 ((tempDelta / Fin 5) + (pHDelta / Fin 2) + ((Fin 100 - enzymeActivity m) / Fin 100)))
      in \<lparr>enzymeDeactivation =
            \<lparr>hoursRemaining = Math_max (Fin 0) hoursTo70Percent,
             confidence = Fin 0.87 + fst (SeededRandom_range (Fin 0) (Fin 0.1) random),
             suggestedAction =
               (if currentActivity < Fin 80
                then Some ''Consider enzyme replenishment or batch termination'' else None)\<rparr>,
          yieldOptimization =
            \<lparr>currentYield = currentYield,
             predictedYield = predictedYield,
             confidenceInterval = (predictedYield - Fin 2.5, predictedYield + Fin 2.5),
             recommendedChanges = recommendations\<rparr>,
          anomalyDetection =
            \<lparr>score = anomalyScore,
             parameters = (if Fin 0.3 < anomalyScore then [''temperature'', ''pH''] else [])\<rparr>\<rparr>)"

section \<open>Reactors and dashboard statistics\<close>

datatype reactor_status = Running | Idle | Maintenance | Error | Optimizing

record Reactor =
  reactor_id :: string
  reactor_name :: string
  location :: string
  status :: reactor_status
  currentMetrics :: ReactorMetrics
  history :: "HistoricalDataPoint list"
  alerts :: "Alert list"
  predictions :: AIPrediction
  config :: ReactorConfig
  uptime :: jsnum
  totalBatches :: jsnum
  lastMaintenance :: jsnum

record DashboardStats =
  totalReactors :: jsnum
  activeReactors :: jsnum
  averageYield :: jsnum
  totalAlerts :: jsnum
  criticalAlerts :: jsnum
  systemHealth :: jsnum
  dailyProduction :: jsnum
  stats_uptime :: jsnum

text \<open>The \<open>length\<close> of an array, as a number.\<close>

definition array_length :: "'a list \<Rightarrow> jsnum" where
  "array_length xs = Fin (of_nat (length xs))"

definition generateDashboardStats :: "Reactor list \<Rightarrow> DashboardStats" where
  "generateDashboardStats reactors =
     (let activeReactors =
            array_length (filter (\<lambda>r. status r = Running \<or> status r = Optimizing) reactors);
          averageYield =
            foldl (\<lambda>sum r. sum + productYield (currentMetrics r)) (Fin 0) reactors
              / array_length reactors;
          totalAlerts = foldl (\<lambda>sum r. sum + array_length (alerts r)) (Fin 0) reactors;
          criticalAlerts =
            foldl (\<lambda>sum r. sum + array_length
                     (filter (\<lambda>a. alert_type a = Critical \<and> \<not> alert_resolved a) (alerts r)))
              (Fin 0) reactors;
          avgEnzymeActivity =
            foldl (\<lambda>sum r. sum + enzymeActivity (currentMetrics r)) (Fin 0) reactors
              / array_length reactors
      in \<lparr>totalReactors = array_length reactors,
          activeReactors = activeReactors,
          averageYield = averageYield,
          totalAlerts = totalAlerts,
          criticalAlerts = criticalAlerts,
          systemHealth = avgEnzymeActivity,
          dailyProduction =
            foldl (\<lambda>sum r. sum + (if status r = Running
                                     then productYield (currentMetrics r) * Fin 0.5 else Fin 0))
              (Fin 0) reactors,
          stats_uptime = (activeReactors / array_length reactors) * Fin 100\<rparr>)"

section \<open>Reactor provider: periodic update and manual control\<close>

text \<open>
  The body of the interval callback for one reactor. \<open>isOptimizing\<close> and
  \<open>selectedReactor\<close> are the state captured by the callback, \<open>now\<close> is the clock reading
  and \<open>rnd k\<close> the result of the \<open>k\<close>-th call of \<open>Math.random()\<close> for this reactor
  (nine calls, in program order). The alert list is carried over unchanged.
\<close>

definition tick_reactor ::
  "bool \<Rightarrow> Reactor option \<Rightarrow> int \<Rightarrow> (nat \<Rightarrow> real) \<Rightarrow> Reactor \<Rightarrow> Reactor" where
  "tick_reactor isOptimizing selectedReactor now rnd reactor =
     (let m = currentMetrics reactor;
          tempTarget = targetTemperature (config reactor);
          tempError = tempTarget - temperature m;
          temp = temperature m + (tempError * Fin 0.02 + (Fin (rnd 0) - Fin 0.5) * Fin 0.1);
          pHTarget = targetPH (config reactor);
          pHError = pHTarget - pH m;
          ph = pH m + (pHError * Fin 0.01 + (Fin (rnd 1) - Fin 0.5) * Fin 0.03);
          targetPress = Fin 1.0 + (flowRate m / Fin 200) * Fin 0.4;
          pressureError = targetPress - pressure m;
          press = pressure m + (pressureError * Fin 0.05 + (Fin (rnd 2) - Fin 0.5) * Fin 0.02);
          flow = Math_max (Fin 100) (Math_min (Fin 200) (flowRate m + (Fin (rnd 3) - Fin 0.5) * Fin 3));
          hoursRunning = uptime reactor;
          deactivationRate = Fin 0.002;
          act = Math_max (Fin 60)
                  (Fin 95 * Math_exp ((- deactivationRate) * hoursRunning)
                     + (Fin (rnd 4) - Fin 0.5) * Fin 0.5);
          consumptionRate = Fin 0.5 * (act / Fin 100);
          sub = Math_max (Fin 5)
                  ((substrateConcentration m - consumptionRate * Fin 0.001)
                     + (Fin (rnd 5) - Fin 0.5) * Fin 0.2);
          theoreticalYield = (act / Fin 100) * Fin 90;
          yieldError = theoreticalYield - productYield m;
          yld = Math_max (Fin 60) (Math_min (Fin 95)
                  (productYield m + (yieldError * Fin 0.05 + (Fin (rnd 6) - Fin 0.5) * Fin 0.5)));
          oxy = Math_max (Fin 75) (Math_min (Fin 100)
                  (dissolvedOxygen m + (Fin (rnd 7) - Fin 0.5) * Fin 2));
          metrics =
            \<lparr>temperature = temp, pH = ph, pressure = press, flowRate = flow,
             enzymeActivity = act, substrateConcentration = sub, productYield = yld,
             dissolvedOxygen = oxy, timestamp = Date_new (Fin (of_int now))\<rparr>;
          newHistoryPoint =
            ReactorMetrics.extend metrics
              \<lparr>point_id = reactor_id reactor @ ''-'' @ Number_toString now\<rparr>;
          currentActivity = act;
          deactivationRateCalc = Fin 0.002;
          hoursTo70Percent = Math_log (currentActivity / Fin 70) / deactivationRateCalc
      in reactor
           \<lparr>history := slice_last 287 (history reactor) @ [newHistoryPoint],
            currentMetrics := metrics,
            uptime := uptime reactor + Fin 2 / Fin 3600,
            predictions := (predictions reactor)
              \<lparr>enzymeDeactivation :=
                 \<lparr>hoursRemaining = Math_max (Fin 0) hoursTo70Percent,
                  confidence = Fin 0.87 + Fin (rnd 8) * Fin 0.1,
                  suggestedAction =
                    (if currentActivity < Fin 80 then Some ''Consider enzyme replenishment''
                     else None)\<rparr>\<rparr>,
            status :=
              (if act < Fin 70 then Maintenance
               else if list_ex (\<lambda>a. alert_type a = Critical \<and> \<not> alert_resolved a) (alerts reactor)
               then Error
               else if isOptimizing \<and>
                       (case selectedReactor of None \<Rightarrow> False
                        | Some sel \<Rightarrow> reactor_id reactor = reactor_id sel)
               then Optimizing
               else Running)\<rparr>)"

text \<open>The callback maps the body over all reactors and recomputes the dashboard statistics.\<close>

fun tick_reactors ::
  "bool \<Rightarrow> Reactor option \<Rightarrow> int \<Rightarrow> (nat \<Rightarrow> real) \<Rightarrow> Reactor list \<Rightarrow> Reactor list" where
  "tick_reactors isOptimizing selectedReactor now rnd [] = []"
| "tick_reactors isOptimizing selectedReactor now rnd (r # rs) =
     tick_reactor isOptimizing selectedReactor now rnd r
       # tick_reactors isOptimizing selectedReactor now (\<lambda>k. rnd (k + 9)) rs"

definition tick ::
  "bool \<Rightarrow> Reactor option \<Rightarrow> int \<Rightarrow> (nat \<Rightarrow> real) \<Rightarrow> Reactor list \<Rightarrow> Reactor list \<times> DashboardStats" where
  "tick isOptimizing selectedReactor now rnd prevReactors =
     (let updatedReactors = tick_reactors isOptimizing selectedReactor now rnd prevReactors
      in (updatedReactors, generateDashboardStats updatedReactors))"

text \<open>The history of a reactor after a run of ticks, one clock reading and one block of draws per tick.\<close>

fun tick_run :: "bool \<Rightarrow> Reactor option \<Rightarrow> (int \<times> (nat \<Rightarrow> real)) list \<Rightarrow> Reactor \<Rightarrow> Reactor" where
  "tick_run isOptimizing selectedReactor [] reactor = reactor"
| "tick_run isOptimizing selectedReactor ((now, rnd) # rest) reactor =
     tick_run isOptimizing selectedReactor rest
       (tick_reactor isOptimizing selectedReactor now rnd reactor)"

text \<open>\<open>updateReactorParameter\<close>: manual control of one reactor, with an alert that records it.\<close>

definition updateReactorParameter_one ::
  "string \<Rightarrow> metric_key \<Rightarrow> jsnum \<Rightarrow> int \<Rightarrow> Reactor \<Rightarrow> Reactor" where
  "updateReactorParameter_one reactorId parameter v now reactor =
     (let updated =
            (if parameter = Key_temperature
             then reactor\<lparr>config := (config reactor)\<lparr>targetTemperature := v\<rparr>\<rparr>
             else if parameter = Key_pH
             then reactor\<lparr>config := (config reactor)\<lparr>targetPH := v\<rparr>\<rparr>
             else if parameter = Key_flowRate
             then reactor\<lparr>currentMetrics := (currentMetrics reactor)\<lparr>flowRate := v\<rparr>\<rparr>
             else reactor)
      in updated
           \<lparr>alerts :=
              \<lparr>alert_id = ''alert-'' @ reactorId @ ''-manual-'' @ Number_toString now,
               alert_reactorId = reactorId,
               alert_type = Info,
               alert_timestamp = Date_new (Fin (of_int now)),
               alert_resolved = False,
               alert_parameter = Some parameter,
               alert_value = Some v\<rparr>
              # take 4 (alerts reactor)\<rparr>)"

definition updateReactorParameter ::
  "string \<Rightarrow> metric_key \<Rightarrow> jsnum \<Rightarrow> int \<Rightarrow> Reactor list \<Rightarrow> Reactor list" where
  "updateReactorParameter reactorId parameter v now prevReactors =
     map (\<lambda>reactor. if reactor_id reactor \<noteq> reactorId then reactor
                     else updateReactorParameter_one reactorId parameter v now reactor)
       prevReactors"

section \<open>Objects in a heap\<close>

text \<open>
  Random sources and simulators are objects; a simulator and its kinetics model each hold
  a reference to a random source, and the constructor of the simulator gives both the
  same one. Here the objects live in a heap, a reference is the index of an object, and
  \<open>new\<close> takes the next free index. The heap also carries the clock: the readings it
  will return, in order, and how many have been taken. A reference of the language
  always points to an object, so the heap is total.
\<close>

type_synonym ref = nat

record simulator_object =
  obj_metrics :: ReactorMetrics
  obj_config :: ReactorConfig
  obj_startTime :: jsnum
  obj_enzymeModel :: EnzymeKineticsModel
  obj_enzymeModel_random :: ref
  obj_random :: ref
  obj_runningTime :: jsnum

record heap =
  randoms :: "ref \<Rightarrow> SeededRandom"
  simulators :: "ref \<Rightarrow> simulator_object"
  allocated :: nat
  readings :: "nat \<Rightarrow> int"
  clock_reads :: nat

text \<open>\<open>Date.now()\<close> and \<open>new Date()\<close> take the next reading of the clock.\<close>

definition Date_now :: "heap \<Rightarrow> int \<times> heap" where
  "Date_now h = (readings h (clock_reads h), h\<lparr>clock_reads := Suc (clock_reads h)\<rparr>)"

definition new_SeededRandom :: "int \<Rightarrow> heap \<Rightarrow> ref \<times> heap" where
  "new_SeededRandom sd h =
     (allocated h,
      h\<lparr>randoms := (randoms h)(allocated h := SeededRandom_new sd),
        allocated := Suc (allocated h)\<rparr>)"

text \<open>A method call on the random source behind a reference.\<close>

definition call_random :: "ref \<Rightarrow> (SeededRandom \<Rightarrow> 'a \<times> SeededRandom) \<Rightarrow> heap \<Rightarrow> 'a \<times> heap" where
  "call_random a method h =
     (let (v, r1) = method (randoms h a)
      in (v, h\<lparr>randoms := (randoms h)(a := r1)\<rparr>))"

text \<open>The constructor of \<open>ReactorSimulator\<close>, on the heap.\<close>

definition new_ReactorSimulator :: "string \<Rightarrow> int \<Rightarrow> heap \<Rightarrow> ref \<times> heap" where
  "new_ReactorSimulator reactorId sd h0 =
     (let (rnd, h1) = new_SeededRandom sd h0;
          em = EnzymeKineticsModel_new;
          (now1, h2) = Date_now h1;
          (age, h3) = call_random rnd (SeededRandom_range (Fin 2) (Fin 48)) h2;
          start = Date_new (Fin (of_int now1) - age * Fin 3600000);
          (now2, h4) = Date_now h3;
          running = (Fin (of_int now2) - start) / Fin 3600000;
          cfg = initial_config;
          (g1, h5) = call_random rnd (SeededRandom_gaussian (Fin 0) (Fin 0.3)) h4;
          (g2, h6) = call_random rnd (SeededRandom_gaussian (Fin 0) (Fin 0.1)) h5;
          (g3, h7) = call_random rnd (SeededRandom_gaussian (Fin 0) (Fin 0.05)) h6;
          (g4, h8) = call_random rnd (SeededRandom_gaussian (Fin 0) (Fin 5)) h7;
          (act, h9) =
            call_random rnd
              (calculateActivity em running (targetTemperature cfg) (targetPH cfg)) h8;
          (sub, h10) = call_random rnd (SeededRandom_range (Fin 10) (Fin 15)) h9;
          (yld, h11) = call_random rnd (SeededRandom_range (Fin 75) (Fin 85)) h10;
          (oxy, h12) = call_random rnd (SeededRandom_range (Fin 85) (Fin 95)) h11;
          (now3, h13) = Date_now h12;
          this = allocated h13
      in (this,
          h13\<lparr>simulators := (simulators h13)(this :=
                 \<lparr>obj_metrics =
                    \<lparr>temperature = targetTemperature cfg + g1,
                     pH = targetPH cfg + g2,
                     pressure = targetPressure cfg + g3,
                     flowRate = targetFlowRate cfg + g4,
                     enzymeActivity = act,
                     substrateConcentration = sub,
                     productYield = yld,
                     dissolvedOxygen = oxy,
                     timestamp = Date_new (Fin (of_int now3))\<rparr>,
                  obj_config = cfg,
                  obj_startTime = start,
                  obj_enzymeModel = em,
                  obj_enzymeModel_random = rnd,
                  obj_random = rnd,
                  obj_runningTime = running\<rparr>),
              allocated := Suc this\<rparr>))"

text \<open>
  \<open>update\<close> on the simulator behind a reference: the samples are drawn through
  \<open>this.random\<close>, the sample of the kinetics model through the model's own reference.
\<close>

definition update_at :: "ref \<Rightarrow> heap \<Rightarrow> ReactorMetrics \<times> heap" where
  "update_at this h0 =
     (let s = simulators h0 this;
          running = obj_runningTime s + Fin 1 / Fin 3600;
          m = obj_metrics s;
          cfg = obj_config s;
          tempError = targetTemperature cfg - temperature m;
          (g1, h1) = call_random (obj_random s) (SeededRandom_gaussian (Fin 0) (Fin 0.05)) h0;
          temp = temperature m + (tempError * Fin 0.02 + g1);
          pHError = targetPH cfg - pH m;
          (g2, h2) = call_random (obj_random s) (SeededRandom_gaussian (Fin 0) (Fin 0.02)) h1;
          ph = pH m + (pHError * Fin 0.01 + g2);
          targetPress = Fin 1.0 + (flowRate m / Fin 200) * Fin 0.4;
          (g3, h3) = call_random (obj_random s) (SeededRandom_gaussian (Fin 0) (Fin 0.01)) h2;
          press = pressure m + ((targetPress - pressure m) * Fin 0.05 + g3);
          (g4, h4) = call_random (obj_random s) (SeededRandom_gaussian (Fin 0) (Fin 2)) h3;
          flow = Math_max (Fin 0) (flowRate m + g4);
          (act, h5) =
            call_random (obj_enzymeModel_random s)
              (calculateActivity (obj_enzymeModel s) running temp ph) h4;
          consumptionRate = Fin 0.5 * (act / Fin 100) * (flow / Fin 150);
          (g5, h6) = call_random (obj_random s) (SeededRandom_gaussian (Fin 0) (Fin 0.1)) h5;
          sub = Math_max (Fin 5) (substrateConcentration m - consumptionRate * Fin 0.001 + g5);
          theoreticalYield = (act / Fin 100) * (sub / Fin 15) * Fin 90;
          (g6, h7) = call_random (obj_random s) (SeededRandom_gaussian (Fin 0) (Fin 0.5)) h6;
          yld = Math_max (Fin 0) (Math_min (Fin 100)
                  (productYield m + ((theoreticalYield - productYield m) * Fin 0.05 + g6)));
          (g7, h8) = call_random (obj_random s) (SeededRandom_gaussian (Fin 0) (Fin 1)) h7;
          oxy = Math_max (Fin 70) (Math_min (Fin 100) (dissolvedOxygen m + g7));
          (now, h9) = Date_now h8;
          metrics =
            \<lparr>temperature = temp, pH = ph, pressure = press, flowRate = flow,
             enzymeActivity = act, substrateConcentration = sub, productYield = yld,
             dissolvedOxygen = oxy, timestamp = Date_new (Fin (of_int now))\<rparr>
      in (metrics,
          h9\<lparr>simulators := (simulators h9)(this :=
                s\<lparr>obj_metrics := metrics, obj_runningTime := running\<rparr>)\<rparr>))"

text \<open>
  Two objects side by side: a schedule says, step by step, which of the two is called.
  \<open>run_calls\<close> issues method calls on two random sources and collects the values each
  returns; \<open>run_updates\<close> ticks two simulators and collects the metrics each returns.
\<close>

fun run_calls :: "ref \<Rightarrow> ref \<Rightarrow> (bool \<times> rng_call) list \<Rightarrow> heap \<Rightarrow> jsnum list \<times> jsnum list" where
  "run_calls a b [] h = ([], [])"
| "run_calls a b ((first, c) # rest) h =
     (let (v, h1) = call_random (if first then a else b) (rng_apply c) h;
          (vs, ws) = run_calls a b rest h1
      in if first then (v # vs, ws) else (vs, v # ws))"

fun run_updates :: "ref \<Rightarrow> ref \<Rightarrow> bool list \<Rightarrow> heap \<Rightarrow> ReactorMetrics list \<times> ReactorMetrics list" where
  "run_updates a b [] h = ([], [])"
| "run_updates a b (first # rest) h =
     (let (m, h1) = update_at (if first then a else b) h;
          (ms, ns) = run_updates a b rest h1
      in if first then (m # ms, ns) else (ms, m # ns))"

text \<open>The simulator behind a reference, with its random source read from the heap.\<close>

definition simulator_at :: "heap \<Rightarrow> ref \<Rightarrow> ReactorSimulator" where
  "simulator_at h this =
     (let s = simulators h this
      in \<lparr>sim_metrics = obj_metrics s, sim_config = obj_config s,
          startTime = obj_startTime s, enzymeModel = obj_enzymeModel s,
          sim_random = randoms h (obj_random s), runningTime = obj_runningTime s\<rparr>)"

section \<open>Notions used to state the properties\<close>

text \<open>
  The standard normal deviate \<open>z0\<close> that a Gaussian sample computes from the next two
  draws, and the random source after the sample.
\<close>

definition box_muller :: "SeededRandom \<Rightarrow> jsnum" where
  "box_muller r =
     (let (u1, r1) = SeededRandom_next r;
          (u2, r2) = SeededRandom_next r1
      in Math_sqrt (Fin (- 2) * Math_log u1) * Math_cos (Fin 2 * Math_PI * u2))"

definition after_gaussian :: "SeededRandom \<Rightarrow> SeededRandom" where
  "after_gaussian r = snd (SeededRandom_next (snd (SeededRandom_next r)))"

text \<open>
  The first draw of the next Gaussian sample is positive, so its logarithm is finite;
  and the same for each of the next \<open>n\<close> Gaussian samples.
\<close>

definition log_guarded :: "SeededRandom \<Rightarrow> bool" where
  "log_guarded r = (Fin 0 < fst (SeededRandom_next r))"

fun gaussians_guarded :: "nat \<Rightarrow> SeededRandom \<Rightarrow> bool" where
  "gaussians_guarded 0 r = True"
| "gaussians_guarded (Suc n) r = (log_guarded r \<and> gaussians_guarded n (after_gaussian r))"

text \<open>The bounds on a metrics snapshot; \<open>oxyMin\<close> is the lower clamp of dissolved oxygen.\<close>

definition metrics_in_bounds :: "jsnum \<Rightarrow> 'a ReactorMetrics_scheme \<Rightarrow> bool" where
  "metrics_in_bounds oxyMin m =
     (Fin 0 \<le> enzymeActivity m \<and> enzymeActivity m \<le> Fin 100
      \<and> Fin 0 \<le> productYield m \<and> productYield m \<le> Fin 100
      \<and> oxyMin \<le> dissolvedOxygen m \<and> dissolvedOxygen m \<le> Fin 100
      \<and> Fin 0 \<le> flowRate m
      \<and> Fin 5 \<le> substrateConcentration m)"

definition metrics_finite :: "'a ReactorMetrics_scheme \<Rightarrow> bool" where
  "metrics_finite m =
     (isFinite (temperature m) \<and> isFinite (pH m) \<and> isFinite (pressure m)
      \<and> isFinite (flowRate m) \<and> isFinite (enzymeActivity m)
      \<and> isFinite (substrateConcentration m) \<and> isFinite (productYield m)
      \<and> isFinite (dissolvedOxygen m))"

text \<open>
  A simulator state as the constructor and \<open>update\<close> leave it when every sample is finite:
  finite metrics and targets, the kinetics model as constructed, a finite running time
  that is not negative. Likewise for a reactor of the provider and its \<open>uptime\<close>.
\<close>

definition simulator_ok :: "ReactorSimulator \<Rightarrow> bool" where
  "simulator_ok s =
     (metrics_finite (sim_metrics s)
      \<and> isFinite (targetTemperature (sim_config s)) \<and> isFinite (targetPH (sim_config s))
      \<and> enzymeModel s = EnzymeKineticsModel_new
      \<and> isFinite (runningTime s) \<and> Fin 0 \<le> runningTime s)"

definition reactor_ok :: "Reactor \<Rightarrow> bool" where
  "reactor_ok r =
     (metrics_finite (currentMetrics r)
      \<and> isFinite (targetTemperature (config r)) \<and> isFinite (targetPH (config r))
      \<and> isFinite (uptime r) \<and> Fin 0 \<le> uptime r)"

text \<open>Concrete values on which the properties are instantiated.\<close>

definition sample_metrics :: ReactorMetrics where
  "sample_metrics =
     \<lparr>temperature = Fin 35, pH = Fin 7.4, pressure = Fin 1.2, flowRate = Fin 150,
      enzymeActivity = Fin 90, substrateConcentration = Fin 12, productYield = Fin 80,
      dissolvedOxygen = Fin 90, timestamp = Fin 0\<rparr>"

definition sample_simulator :: "int \<Rightarrow> jsnum \<Rightarrow> ReactorSimulator" where
  "sample_simulator sd running =
     \<lparr>sim_metrics = sample_metrics, sim_config = initial_config, startTime = Fin 0,
      enzymeModel = EnzymeKineticsModel_new, sim_random = SeededRandom_new sd,
      runningTime = running\<rparr>"

definition sample_heap :: heap where
  "sample_heap =
     \<lparr>randoms = (\<lambda>a. SeededRandom_new 0),
      simulators = (\<lambda>a.
        \<lparr>obj_metrics = sample_metrics, obj_config = initial_config, obj_startTime = Fin 0,
         obj_enzymeModel = EnzymeKineticsModel_new, obj_enzymeModel_random = 0,
         obj_random = 0, obj_runningTime = Fin 0\<rparr>),
      allocated = 0, readings = (\<lambda>k. 1700000000000), clock_reads = 0\<rparr>"

definition sample_reactor :: Reactor where
  "sample_reactor =
     \<lparr>reactor_id = ''RXN-001'', reactor_name = ''Reactor Alpha'',
      location = ''California Facility - Bay 1'', status = Running,
      currentMetrics = sample_metrics, history = [], alerts = [],
      predictions = generateAIPredictions sample_metrics [] (Fin 24) 0,
      config = initial_config, uptime = Fin 24, totalBatches = Fin 100,
      lastMaintenance = Fin 0\<rparr>"

section \<open>Properties\<close>

subsection \<open>Auxiliary facts\<close>

lemma js_rem_positive:
  "0 < js_rem a 233280 \<Longrightarrow> 1 \<le> js_rem a 233280 \<and> js_rem a 233280 < 233280 \<and> 0 \<le> a"
  by (auto simp: js_rem_def split: if_splits)

lemma js_rem_bound: "\<bar>js_rem a 233280\<bar> < 233280"
proof (cases "0 \<le> a")
  case True
  have "0 \<le> a mod 233280" "a mod 233280 < 233280" by simp_all
  with True show ?thesis by (simp add: js_rem_def)
next
  case False
  have "0 \<le> (- a) mod 233280" "(- a) mod 233280 < 233280" by simp_all
  with False show ?thesis by (simp add: js_rem_def)
qed

lemma double_int_small: "\<bar>x\<bar> < 9007199254740992 \<Longrightarrow> double_int x = x"
proof -
  assume small: "\<bar>x\<bar> < 9007199254740992"
  then have "ulp_of (nat \<bar>x\<bar>) = 1" by (subst ulp_of.simps) simp
  then show ?thesis by (simp add: double_int_def Let_def sgn_if)
qed

lemma ulp_of_large: "9007199254740992 \<le> n \<Longrightarrow> n < 18014398509481984 \<Longrightarrow> ulp_of n = 2"
proof -
  assume n: "9007199254740992 \<le> n" "n < 18014398509481984"
  then have half: "n div 2 < 9007199254740992" by simp
  have "ulp_of n = 2 * ulp_of (n div 2)" using n by (subst ulp_of.simps) simp
  also have "ulp_of (n div 2) = 1" using half by (subst ulp_of.simps) simp
  finally show ?thesis by simp
qed

text \<open>A seed taken from the clock: the sum is odd, lies above \<open>2^53\<close> and is rounded to even.\<close>

lemma next_rounded_seed:
  "SeededRandom_next \<lparr>seed = 1793577611062\<rparr> = (Fin 0, \<lparr>seed = 0\<rparr>)"
proof -
  have one: "double_int 16682065360487662 = 16682065360487662"
    by (simp add: double_int_def ulp_of_large Let_def)
  have two: "double_int 16682065360536959 = 16682065360536960"
    by (simp add: double_int_def ulp_of_large Let_def)
  show ?thesis by (simp add: SeededRandom_next_def one two js_rem_def Let_def)
qed

lemma product_exact:
  "\<bar>s\<bar> \<le> 233280 \<Longrightarrow> double_int (double_int (s * 9301) + 49297) = s * 9301 + 49297"
proof -
  assume s: "\<bar>s\<bar> \<le> 233280"
  then have "\<bar>s * 9301\<bar> < 9007199254740992" by (simp add: abs_mult)
  then have one: "double_int (s * 9301) = s * 9301" by (rule double_int_small)
  from s have "\<bar>s * 9301 + 49297\<bar> < 9007199254740992" by (simp add: abs_if split: if_splits)
  then show ?thesis unfolding one by (rule double_int_small)
qed

lemma next_seed:
  "\<bar>s\<bar> \<le> 233280 \<Longrightarrow>
   SeededRandom_next \<lparr>seed = s\<rparr>
     = (Fin (of_int (js_rem (s * 9301 + 49297) 233280)) / Fin 233280,
        \<lparr>seed = js_rem (s * 9301 + 49297) 233280\<rparr>)"
  by (simp add: SeededRandom_next_def Let_def product_exact)

lemma after_gaussian_seed:
  "\<bar>s\<bar> \<le> 233280 \<Longrightarrow>
   after_gaussian \<lparr>seed = s\<rparr>
     = \<lparr>seed = js_rem (js_rem (s * 9301 + 49297) 233280 * 9301 + 49297) 233280\<rparr>"
  using js_rem_bound [of "s * 9301 + 49297"] by (simp add: after_gaussian_def next_seed)

lemma log_guarded_seed:
  "\<bar>s\<bar> \<le> 233280 \<Longrightarrow>
   log_guarded \<lparr>seed = s\<rparr> \<longleftrightarrow> 0 < js_rem (s * 9301 + 49297) 233280"
  by (simp add: log_guarded_def next_seed)

lemma gaussian_box_muller:
  "SeededRandom_gaussian mean stdDev r = (mean + box_muller r * stdDev, after_gaussian r)"
  by (simp add: SeededRandom_gaussian_def box_muller_def after_gaussian_def split_beta Let_def)

lemma next_zero_draw: "SeededRandom_next \<lparr>seed = 22643\<rparr> = (Fin 0, \<lparr>seed = 0\<rparr>)"
  by (simp add: next_seed js_rem_def)

lemma next_after_zero: "SeededRandom_next \<lparr>seed = 0\<rparr> = (Fin (49297 / 233280), \<lparr>seed = 49297\<rparr>)"
  by (simp add: next_seed js_rem_def)

lemma cos_after_zero: "0 < cos (2 * pi * (49297 / 233280))"
proof (rule cos_gt_zero_pi)
  have p: "0 < pi" by (rule pi_gt_zero)
  show "- (pi / 2) < 2 * pi * (49297 / 233280)" using p by simp
  have "2 * pi * (49297 / 233280) = pi * (49297 / 116640)" by simp
  also have "\<dots> < pi * (1 / 2)" using p by (intro mult_strict_left_mono) simp_all
  finally show "2 * pi * (49297 / 233280) < pi / 2" by simp
qed

lemma box_muller_zero_draw: "box_muller \<lparr>seed = 22643\<rparr> = PInf"
  using cos_after_zero
  by (simp add: box_muller_def next_zero_draw next_after_zero Math_PI_def)

lemma after_zero_draw: "after_gaussian \<lparr>seed = 22643\<rparr> = \<lparr>seed = 49297\<rparr>"
  by (simp add: after_gaussian_def next_zero_draw next_after_zero)

subsection \<open>Aggregate statistics\<close>

text \<open>
  C1. For the empty reactor list the counts and the production are 0, and the three
  quotients by the number of reactors (\<open>averageYield\<close>, \<open>systemHealth\<close>, \<open>uptime\<close>) are
  \<open>0/0\<close>, that is NaN, where the specification asks for 0.
\<close>

theorem generateDashboardStats_empty:
  "generateDashboardStats [] =
     \<lparr>totalReactors = Fin 0, activeReactors = Fin 0, averageYield = NaN, totalAlerts = Fin 0,
      criticalAlerts = Fin 0, systemHealth = NaN, dailyProduction = Fin 0, stats_uptime = NaN\<rparr>"
  by (simp add: generateDashboardStats_def array_length_def Let_def)

subsection \<open>Random source\<close>

text \<open>
  C2. With seed 22643 the first draw of \<open>next()\<close> is 0; \<open>gaussian(0, 1)\<close> takes its
  logarithm unguarded and returns \<open>Infinity\<close>, which is not a finite number;
  \<open>gaussian(0, 0)\<close> returns NaN there.
\<close>

theorem gaussian_zero_draw_infinite:
  "fst (SeededRandom_next (SeededRandom_new 22643)) = Fin 0
   \<and> SeededRandom_gaussian (Fin 0) (Fin 1) (SeededRandom_new 22643) = (PInf, SeededRandom_new 49297)
   \<and> \<not> isFinite (fst (SeededRandom_gaussian (Fin 0) (Fin 1) (SeededRandom_new 22643)))
   \<and> fst (SeededRandom_gaussian (Fin 0) (Fin 0) (SeededRandom_new 22643)) = NaN"
  by (simp add: gaussian_box_muller SeededRandom_new_def next_zero_draw box_muller_zero_draw
      after_zero_draw)

subsection \<open>Kinetics\<close>

text \<open>
  C4. For finite hours, temperature and pH, the computed activity is
  \<open>initialActivity * exp (- (0.002 * tempFactor * pHFactor) * hours)\<close> plus the Gaussian
  noise sample of mean 0 and deviation 0.5, floored at 0, with
  \<open>tempFactor = 1 + max 0 (temperature - 37) * 0.05\<close> and
  \<open>pHFactor = 1 + |pH - 7.4| * 0.1\<close>.
\<close>

theorem calculateActivity_formula:
  "calculateActivity \<lparr>time = t, initialActivity = Fin a0, deactivationRate = Fin 0.002\<rparr>
      (Fin h) (Fin T) (Fin p) r =
    (Math_max (Fin 0)
       (Fin (a0 * exp (- (0.002 * (1 + max 0 (T - 37) * 0.05) * (1 + \<bar>p - 7.4\<bar> * 0.1)) * h))
         + fst (SeededRandom_gaussian (Fin 0) (Fin 0.5) r)),
     snd (SeededRandom_gaussian (Fin 0) (Fin 0.5) r))"
  by (simp add: calculateActivity_def minus_jsnum_def split_beta max_def)

subsection \<open>History window\<close>

lemma slice_last_length: "length (slice_last n xs) = min n (length xs)"
  by (simp add: slice_last_def)

lemma slice_last_append_one: "slice_last 288 (xs @ [x]) = slice_last 287 xs @ [x]"
  by (simp add: slice_last_def)

lemma slice_last_slice_last: "n \<le> k \<Longrightarrow> slice_last n (slice_last k xs) = slice_last n xs"
proof -
  assume "n \<le> k"
  then have "length xs - (length xs - k + n) + (length xs - k) = length xs - n" by arith
  then show ?thesis by (simp add: slice_last_def)
qed

lemma history_tick_reactor:
  "history (tick_reactor opt sel now rnd r) =
     slice_last 287 (history r)
       @ [ReactorMetrics.extend (currentMetrics (tick_reactor opt sel now rnd r))
            \<lparr>point_id = reactor_id r @ ''-'' @ Number_toString now\<rparr>]"
  by (simp add: tick_reactor_def Let_def)

lemma tick_run_append_one:
  "tick_run opt sel (ts @ [(now, rnd)]) r = tick_reactor opt sel now rnd (tick_run opt sel ts r)"
  by (induction ts arbitrary: r) auto

text \<open>After at least one tick the history is the last 288 entries of the starting
  history followed by the points appended so far.\<close>

lemma history_tick_run:
  "ticks \<noteq> [] \<Longrightarrow>
   history (tick_run opt sel ticks r) =
     slice_last 288
       (history r
          @ map (\<lambda>k. last (history (tick_run opt sel (take (Suc k) ticks) r))) [0..<length ticks])"
proof (induction ticks rule: rev_induct)
  case Nil
  then show ?case by simp
next
  case (snoc t ts)
  obtain now rnd where t: "t = (now, rnd)" by (cases t)
  let ?p = "last (history (tick_run opt sel (ts @ [t]) r))"
  let ?f = "\<lambda>us k. last (history (tick_run opt sel (take (Suc k) us) r))"
  have same: "map (?f (ts @ [t])) [0..<length ts] = map (?f ts) [0..<length ts]"
    by simp
  have "history (tick_run opt sel (ts @ [t]) r)
          = slice_last 287 (history (tick_run opt sel ts r)) @ [?p]"
    unfolding t tick_run_append_one by (simp add: history_tick_reactor)
  also have "\<dots> = slice_last 287 (history r @ map (?f ts) [0..<length ts]) @ [?p]"
  proof (cases "ts = []")
    case True
    then show ?thesis by simp
  next
    case False
    then show ?thesis by (simp add: snoc.IH slice_last_slice_last)
  qed
  also have "\<dots> = slice_last 288 ((history r @ map (?f ts) [0..<length ts]) @ [?p])"
    by (simp only: slice_last_append_one)
  also have "(history r @ map (?f ts) [0..<length ts]) @ [?p]
      = history r @ map (?f (ts @ [t])) [0..<length (ts @ [t])]"
    using same by simp
  finally show ?case .
qed

text \<open>
  C6. One tick makes the new snapshot the last history point and leaves
  \<open>min (old length + 1) 288\<close> points. After more than 288 ticks the history has 288
  points, and its oldest point is the one that tick \<open>N - 287\<close> appended (the last point
  of the history as it was after the first \<open>N - 287\<close> ticks).
\<close>

theorem history_sliding_window:
  "last (history (tick_reactor opt sel now rnd r))
     = ReactorMetrics.extend (currentMetrics (tick_reactor opt sel now rnd r))
         \<lparr>point_id = reactor_id r @ ''-'' @ Number_toString now\<rparr>
   \<and> length (history (tick_reactor opt sel now rnd r)) = min (length (history r) + 1) 288
   \<and> (288 < length ticks \<longrightarrow>
        length (history (tick_run opt sel ticks r)) = 288
        \<and> hd (history (tick_run opt sel ticks r))
            = last (history (tick_run opt sel (take (length ticks - 287) ticks) r)))"
proof (intro conjI impI)
  show "last (history (tick_reactor opt sel now rnd r))
     = ReactorMetrics.extend (currentMetrics (tick_reactor opt sel now rnd r))
         \<lparr>point_id = reactor_id r @ ''-'' @ Number_toString now\<rparr>"
    by (subst history_tick_reactor) simp
  show "length (history (tick_reactor opt sel now rnd r)) = min (length (history r) + 1) 288"
    by (subst history_tick_reactor) (simp add: slice_last_length)
next
  assume N: "288 < length ticks"
  let ?f = "\<lambda>k. last (history (tick_run opt sel (take (Suc k) ticks) r))"
  let ?ps = "map ?f [0..<length ticks]"
  have H: "history (tick_run opt sel ticks r) = slice_last 288 (history r @ ?ps)"
    using N by (intro history_tick_run) auto
  have "slice_last 288 (history r @ ?ps) = drop (length ticks - 288) ?ps"
    using N by (simp add: slice_last_def)
  with H have H2: "history (tick_run opt sel ticks r) = drop (length ticks - 288) ?ps" by simp
  show "length (history (tick_run opt sel ticks r)) = 288"
    using N by (simp add: H2)
  have "hd (drop (length ticks - 288) ?ps) = ?ps ! (length ticks - 288)"
    using N by (intro hd_drop_conv_nth) simp
  also have "\<dots> = ?f (length ticks - 288)" using N by simp
  also have "Suc (length ticks - 288) = length ticks - 287" using N by simp
  finally show "hd (history (tick_run opt sel ticks r))
            = last (history (tick_run opt sel (take (length ticks - 287) ticks) r))"
    by (simp add: H2)
qed

theorem history_sliding_window_witness:
  "288 < length (replicate 289 (0::int, \<lambda>k::nat. 0::real))
   \<and> length (history (tick_run False None (replicate 289 (0, \<lambda>k. 0)) sample_reactor)) = 288
   \<and> hd (history (tick_run False None (replicate 289 (0, \<lambda>k. 0)) sample_reactor))
       = last (history (tick_run False None (replicate 2 (0, \<lambda>k. 0)) sample_reactor))"
  using history_sliding_window
    [of False None 0 "\<lambda>k. 0" sample_reactor "replicate 289 (0, \<lambda>k. 0)"]
  by simp

subsection \<open>Deactivation forecast\<close>

lemma forecast_finite:
  "0 \<le> a \<Longrightarrow>
   Math_max (Fin 0) (Math_log (Fin a / Fin 70) / Fin 0.002)
     = Fin (if a = 0 then 0 else max 0 (ln (a / 70) / 0.002))"
  by simp

lemma hoursRemaining_generateAIPredictions:
  "hoursRemaining (enzymeDeactivation (generateAIPredictions m hist running now))
     = Math_max (Fin 0) (Math_log (enzymeActivity m / Fin 70) / Fin 0.002)"
  by (simp add: generateAIPredictions_def Let_def)

lemma hoursRemaining_tick_reactor:
  "hoursRemaining (enzymeDeactivation (predictions (tick_reactor opt sel now rnd r)))
     = Math_max (Fin 0)
         (Math_log (enzymeActivity (currentMetrics (tick_reactor opt sel now rnd r)) / Fin 70)
            / Fin 0.002)"
  by (simp add: tick_reactor_def Let_def)

text \<open>
  C7 as stated fails: for the activity \<open>-1\<close>, which is at most 70, the logarithm is NaN,
  \<open>Math.max(0, NaN)\<close> is NaN, and the forecast is not 0.
\<close>

theorem forecast_negative_activity_counterexample:
  "Fin (- 1) \<le> Fin 70
   \<and> hoursRemaining (enzymeDeactivation
        (generateAIPredictions (sample_metrics\<lparr>enzymeActivity := Fin (- 1)\<rparr>) [] (Fin 24) 0))
      = NaN"
  by (simp add: hoursRemaining_generateAIPredictions sample_metrics_def)

text \<open>
  C7, amended. For every finite activity that is not negative, both forecasts (the one of
  \<open>generateAIPredictions\<close> and the one of the periodic update) are a finite number of
  hours that is not negative, equal to \<open>max 0 (ln (activity / 70) / 0.002)\<close> when the
  activity is positive, and 0 whenever the activity is at most 70, the activity 0 included.
\<close>

theorem forecast_nonnegative_activity:
  assumes "0 \<le> a"
  shows "(enzymeActivity m = Fin a \<longrightarrow>
            (\<exists>h. hoursRemaining (enzymeDeactivation (generateAIPredictions m hist running now)) = Fin h
                 \<and> 0 \<le> h
                 \<and> (0 < a \<longrightarrow> h = max 0 (ln (a / 70) / 0.002))
                 \<and> (a \<le> 70 \<longrightarrow> h = 0)))
       \<and> (enzymeActivity (currentMetrics (tick_reactor opt sel clock rnd r)) = Fin a \<longrightarrow>
            (\<exists>h. hoursRemaining (enzymeDeactivation (predictions (tick_reactor opt sel clock rnd r))) = Fin h
                 \<and> 0 \<le> h
                 \<and> (0 < a \<longrightarrow> h = max 0 (ln (a / 70) / 0.002))
                 \<and> (a \<le> 70 \<longrightarrow> h = 0)))"
proof -
  let ?h = "if a = 0 then 0 else max 0 (ln (a / 70) / 0.002)"
  have nonneg: "0 \<le> ?h" by simp
  have pos: "0 < a \<longrightarrow> ?h = max 0 (ln (a / 70) / 0.002)" by simp
  have low: "a \<le> 70 \<longrightarrow> ?h = 0"
  proof
    assume le: "a \<le> 70"
    show "?h = 0"
    proof (cases "a = 0")
      case True
      then show ?thesis by simp
    next
      case False
      with assms have "0 < a" by simp
      with le have "ln (a / 70) \<le> 0" by simp
      then have "ln (a / 70) / 0.002 \<le> 0" by (simp add: divide_le_0_iff)
      with False show ?thesis by (simp add: max_def)
    qed
  qed
  show ?thesis
    unfolding hoursRemaining_generateAIPredictions hoursRemaining_tick_reactor
    using forecast_finite [OF assms] nonneg pos low by auto
qed

theorem forecast_nonnegative_activity_witness:
  "(0::real) \<le> 50
   \<and> enzymeActivity (sample_metrics\<lparr>enzymeActivity := Fin 50\<rparr>) = Fin 50
   \<and> hoursRemaining (enzymeDeactivation
        (generateAIPredictions (sample_metrics\<lparr>enzymeActivity := Fin 50\<rparr>) [] (Fin 24) 0)) = Fin 0
   \<and> (0::real) \<le> 95
   \<and> enzymeActivity (currentMetrics
        (tick_reactor False None 0 (\<lambda>k. 1 / 2) (sample_reactor\<lparr>uptime := Fin 0\<rparr>))) = Fin 95
   \<and> hoursRemaining (enzymeDeactivation (predictions
        (tick_reactor False None 0 (\<lambda>k. 1 / 2) (sample_reactor\<lparr>uptime := Fin 0\<rparr>))))
       = Fin (max 0 (ln (95 / 70) / 0.002))"
proof -
  have act: "enzymeActivity (currentMetrics
        (tick_reactor False None 0 (\<lambda>k. 1 / 2) (sample_reactor\<lparr>uptime := Fin 0\<rparr>))) = Fin 95"
    by (simp add: tick_reactor_def sample_reactor_def Let_def minus_jsnum_def)
  have low: "enzymeActivity (sample_metrics\<lparr>enzymeActivity := Fin 50\<rparr>) = Fin 50"
    by simp
  from forecast_nonnegative_activity
         [of 50 "sample_metrics\<lparr>enzymeActivity := Fin 50\<rparr>" "[]" "Fin 24" 0]
  have one: "hoursRemaining (enzymeDeactivation
        (generateAIPredictions (sample_metrics\<lparr>enzymeActivity := Fin 50\<rparr>) [] (Fin 24) 0)) = Fin 0"
    using low by auto
  from forecast_nonnegative_activity
         [of 95 _ _ _ _ False None 0 "\<lambda>k. 1 / 2" "sample_reactor\<lparr>uptime := Fin 0\<rparr>"]
  have two: "hoursRemaining (enzymeDeactivation (predictions
        (tick_reactor False None 0 (\<lambda>k. 1 / 2) (sample_reactor\<lparr>uptime := Fin 0\<rparr>))))
       = Fin (max 0 (ln (95 / 70) / 0.002))"
    using act by auto
  show ?thesis using act low one two by simp
qed

subsection \<open>Alert derivation\<close>

lemma filter_first_of_four:
  assumes "length a1 \<le> 1" "length a2 \<le> 1" "length a3 \<le> 1" "length a4 \<le> 1"
    and "filter P a2 = []" "filter P a3 = []" "filter P a4 = []"
  shows "filter P (take 5 (a1 @ a2 @ a3 @ a4)) = filter P a1"
  using assms by simp

lemma pH_alert_kind:
  "map alert_type (filter (\<lambda>a. alert_parameter a = Some Key_pH)
      (if Fin 0.3 < d then [\<lparr>alert_id = i, alert_reactorId = rid,
          alert_type = (if Fin 0.5 < d then Critical else Warning), alert_timestamp = ts,
          alert_resolved = False, alert_parameter = Some Key_pH, alert_value = v\<rparr>] else []))
   = (if Fin 0.5 < d then [Critical] else if Fin 0.3 < d then [Warning] else [])"
  by (cases d) auto

lemma list_ex_of_filter_singleton:
  "map f (filter P xs) = [c] \<Longrightarrow> list_ex (\<lambda>a. f a = c \<and> P a) xs"
  by (induction xs) (auto split: if_splits)

lemma alerts_tick_reactor: "alerts (tick_reactor opt sel now rnd r) = alerts r"
  by (simp add: tick_reactor_def Let_def)

lemma alerts_tick_run: "alerts (tick_run opt sel ticks r) = alerts r"
  by (induction ticks arbitrary: r) (auto simp: alerts_tick_reactor)

text \<open>
  C8 as stated fails for a reactor of the provider. A reactor without alerts whose pH and
  target pH are 8.0 still has pH 8.0 after the periodic update and still has no alert;
  and setting the pH of a reactor to 8.0 by \<open>updateReactorParameter\<close> leaves it with an
  info alert only.
\<close>

theorem pH_forced_no_alert_counterexample:
  "pH (currentMetrics (tick_reactor False None 0 (\<lambda>k. 1 / 2)
        (sample_reactor\<lparr>currentMetrics := sample_metrics\<lparr>pH := Fin 8\<rparr>,
                         config := initial_config\<lparr>targetPH := Fin 8\<rparr>\<rparr>))) = Fin 8
   \<and> alerts (tick_reactor False None 0 (\<lambda>k. 1 / 2)
        (sample_reactor\<lparr>currentMetrics := sample_metrics\<lparr>pH := Fin 8\<rparr>,
                         config := initial_config\<lparr>targetPH := Fin 8\<rparr>\<rparr>)) = []
   \<and> map alert_type (alerts (updateReactorParameter_one ''RXN-001'' Key_pH (Fin 8) 0 sample_reactor))
       = [Info]"
proof -
  have "pH (currentMetrics (tick_reactor False None 0 (\<lambda>k. 1 / 2)
        (sample_reactor\<lparr>currentMetrics := sample_metrics\<lparr>pH := Fin 8\<rparr>,
                         config := initial_config\<lparr>targetPH := Fin 8\<rparr>\<rparr>))) = Fin 8"
    by (simp add: tick_reactor_def Let_def sample_reactor_def sample_metrics_def
        initial_config_def minus_jsnum_def)
  moreover have "alerts (tick_reactor False None 0 (\<lambda>k. 1 / 2)
        (sample_reactor\<lparr>currentMetrics := sample_metrics\<lparr>pH := Fin 8\<rparr>,
                         config := initial_config\<lparr>targetPH := Fin 8\<rparr>\<rparr>)) = []"
    unfolding alerts_tick_reactor by (simp add: sample_reactor_def)
  moreover have "map alert_type
      (alerts (updateReactorParameter_one ''RXN-001'' Key_pH (Fin 8) 0 sample_reactor)) = [Info]"
    by (simp add: updateReactorParameter_one_def sample_reactor_def)
  ultimately show ?thesis by simp
qed

text \<open>
  C8, amended. The alerts about pH that \<open>generateAlerts\<close> derives from a snapshot are:
  one critical alert when the pH deviates from 7.4 by more than 0.5, one warning when it
  deviates by more than 0.3 and at most 0.5, none otherwise; for a snapshot whose pH is
  8.0 the derived list holds a critical alert with parameter pH. The periodic update of
  the provider derives no alerts: it leaves the alert list of a reactor as it was, and
  \<open>updateReactorParameter\<close> puts one info alert before the first four alerts.
\<close>

theorem pH_alert_derivation:
  "map alert_type (filter (\<lambda>a. alert_parameter a = Some Key_pH)
      (generateAlerts rid m hist now rnd))
     = (if Fin 0.5 < Math_abs (pH m - Fin 7.4) then [Critical]
        else if Fin 0.3 < Math_abs (pH m - Fin 7.4) then [Warning] else [])
   \<and> list_ex (\<lambda>a. alert_type a = Critical \<and> alert_parameter a = Some Key_pH)
        (generateAlerts rid (m\<lparr>pH := Fin 8\<rparr>) hist now rnd)
   \<and> alerts (tick_run opt sel ticks r) = alerts r
   \<and> map alert_type (alerts (updateReactorParameter_one rid k v now r))
       = Info # map alert_type (take 4 (alerts r))"
proof -
  have kinds: "map alert_type (filter (\<lambda>a. alert_parameter a = Some Key_pH)
      (generateAlerts rid m hist now rnd))
     = (if Fin 0.5 < Math_abs (pH m - Fin 7.4) then [Critical]
        else if Fin 0.3 < Math_abs (pH m - Fin 7.4) then [Warning] else [])" for m :: "'a ReactorMetrics_scheme"
    unfolding generateAlerts_def Let_def
    by (subst filter_first_of_four) (simp_all only: pH_alert_kind, simp_all)
  have "map alert_type (filter (\<lambda>a. alert_parameter a = Some Key_pH)
      (generateAlerts rid (m\<lparr>pH := Fin 8\<rparr>) hist now rnd)) = [Critical]"
    by (subst kinds) (simp add: minus_jsnum_def)
  then have forced: "list_ex (\<lambda>a. alert_type a = Critical \<and> alert_parameter a = Some Key_pH)
        (generateAlerts rid (m\<lparr>pH := Fin 8\<rparr>) hist now rnd)"
    by (rule list_ex_of_filter_singleton)
  have manual: "map alert_type (alerts (updateReactorParameter_one rid k v now r))
       = Info # map alert_type (take 4 (alerts r))"
    by (simp add: updateReactorParameter_one_def)
  show ?thesis using kinds [of m] forced alerts_tick_run [of opt sel ticks r] manual
    by (simp only: simp_thms)
qed

subsection \<open>Parameter adjustment\<close>

text \<open>
  C9. In the simulator and in the provider alike, adjusting \<open>temperature\<close> replaces only
  the target temperature of the configuration and adjusting \<open>pH\<close> only the target pH,
  the metrics staying as they are; adjusting \<open>flowRate\<close> replaces only the flow rate of
  the metrics; for every other parameter the simulator is unchanged and the provider
  changes neither configuration nor metrics. No case fails.
\<close>

theorem adjustParameter_frame:
  "adjustParameter Key_temperature v s = s\<lparr>sim_config := (sim_config s)\<lparr>targetTemperature := v\<rparr>\<rparr>
   \<and> adjustParameter Key_pH v s = s\<lparr>sim_config := (sim_config s)\<lparr>targetPH := v\<rparr>\<rparr>
   \<and> adjustParameter Key_flowRate v s = s\<lparr>sim_metrics := (sim_metrics s)\<lparr>flowRate := v\<rparr>\<rparr>
   \<and> (k \<notin> {Key_temperature, Key_pH, Key_flowRate} \<longrightarrow> adjustParameter k v s = s)
   \<and> config (updateReactorParameter_one rid Key_temperature v now r)
        = (config r)\<lparr>targetTemperature := v\<rparr>
   \<and> currentMetrics (updateReactorParameter_one rid Key_temperature v now r) = currentMetrics r
   \<and> config (updateReactorParameter_one rid Key_pH v now r) = (config r)\<lparr>targetPH := v\<rparr>
   \<and> currentMetrics (updateReactorParameter_one rid Key_pH v now r) = currentMetrics r
   \<and> currentMetrics (updateReactorParameter_one rid Key_flowRate v now r)
        = (currentMetrics r)\<lparr>flowRate := v\<rparr>
   \<and> config (updateReactorParameter_one rid Key_flowRate v now r) = config r
   \<and> (k \<notin> {Key_temperature, Key_pH, Key_flowRate} \<longrightarrow>
        config (updateReactorParameter_one rid k v now r) = config r
        \<and> currentMetrics (updateReactorParameter_one rid k v now r) = currentMetrics r)"
  by (simp add: adjustParameter_def updateReactorParameter_one_def)

theorem adjustParameter_frame_witness:
  "Key_pressure \<notin> {Key_temperature, Key_pH, Key_flowRate}
   \<and> adjustParameter Key_pressure (Fin 2) (sample_simulator 12345 (Fin 24))
        = sample_simulator 12345 (Fin 24)
   \<and> config (updateReactorParameter_one ''RXN-001'' Key_pressure (Fin 2) 0 sample_reactor)
        = config sample_reactor
   \<and> currentMetrics (updateReactorParameter_one ''RXN-001'' Key_pressure (Fin 2) 0 sample_reactor)
        = currentMetrics sample_reactor"
  using adjustParameter_frame
    [of "Fin 2" "sample_simulator 12345 (Fin 24)" Key_pressure "''RXN-001''" 0 sample_reactor]
  by simp

subsection \<open>Recommendations\<close>

text \<open>
  C10. The recommended changes name, in this order, \<open>temperature\<close> when the temperature
  is more than 0.5 away from 35.8, \<open>pH\<close> when the pH is more than 0.1 away from 7.35, and
  \<open>flowRate\<close> when the flow rate is more than 10 away from 165, and nothing else; so
  there are at most three and no parameter occurs twice.
\<close>

theorem recommendedChanges_order:
  "map adj_parameter
     (recommendedChanges (yieldOptimization (generateAIPredictions m hist running now)))
     = (if Fin 0.5 < Math_abs (temperature m - Fin 35.8) then [Key_temperature] else [])
       @ (if Fin 0.1 < Math_abs (pH m - Fin 7.35) then [Key_pH] else [])
       @ (if Fin 10 < Math_abs (flowRate m - Fin 165) then [Key_flowRate] else [])
   \<and> length (recommendedChanges (yieldOptimization (generateAIPredictions m hist running now)))
       \<le> 3
   \<and> distinct (map adj_parameter
        (recommendedChanges (yieldOptimization (generateAIPredictions m hist running now))))"
  by (simp add: generateAIPredictions_def Let_def)

subsection \<open>Finite arithmetic\<close>

lemma isFinite_iff: "isFinite x \<longleftrightarrow> (\<exists>a. x = Fin a)"
  by (cases x) simp_all

lemma isFinite_plus [simp]: "isFinite a \<Longrightarrow> isFinite b \<Longrightarrow> isFinite (a + b)"
  by (auto simp: isFinite_iff)

lemma isFinite_minus [simp]: "isFinite a \<Longrightarrow> isFinite b \<Longrightarrow> isFinite (a - b)"
  by (auto simp: isFinite_iff minus_jsnum_def)

lemma isFinite_times [simp]: "isFinite a \<Longrightarrow> isFinite b \<Longrightarrow> isFinite (a * b)"
  by (auto simp: isFinite_iff)

lemma isFinite_divide [simp]: "isFinite a \<Longrightarrow> c \<noteq> 0 \<Longrightarrow> isFinite (a / Fin c)"
  by (auto simp: isFinite_iff)

lemma isFinite_max [simp]: "isFinite a \<Longrightarrow> isFinite b \<Longrightarrow> isFinite (Math_max a b)"
  by (auto simp: isFinite_iff)

lemma isFinite_min [simp]: "isFinite a \<Longrightarrow> isFinite b \<Longrightarrow> isFinite (Math_min a b)"
  by (auto simp: isFinite_iff)

lemma max_lower [simp]: "isFinite x \<Longrightarrow> Fin lo \<le> Math_max (Fin lo) x"
  by (auto simp: isFinite_iff)

lemma clamp_lower [simp]: "isFinite x \<Longrightarrow> Fin lo \<le> Math_max (Fin lo) (Math_min (Fin hi) x)"
  by (auto simp: isFinite_iff)

lemma clamp_upper [simp]:
  "isFinite x \<Longrightarrow> lo \<le> hi \<Longrightarrow> Math_max (Fin lo) (Math_min (Fin hi) x) \<le> Fin hi"
  by (auto simp: isFinite_iff)

lemma clamp_upper_trans:
  "isFinite x \<Longrightarrow> lo \<le> hi \<Longrightarrow> hi \<le> b \<Longrightarrow> Math_max (Fin lo) (Math_min (Fin hi) x) \<le> Fin b"
  by (auto simp: isFinite_iff)

lemma clamp_lower_trans:
  "isFinite x \<Longrightarrow> b \<le> lo \<Longrightarrow> Fin b \<le> Math_max (Fin lo) (Math_min (Fin hi) x)"
  by (auto simp: isFinite_iff)

subsection \<open>Gaussian samples with a guarded logarithm\<close>

lemma ln_modulus: "ln (233280::real) \<le> 18"
proof -
  have "ln (233280::real) \<le> ln (2 ^ 18)" by (subst ln_le_cancel_iff) simp_all
  also have "\<dots> = 18 * ln (2::real)" using ln_realpow [of "2::real" 18] by simp
  also have "\<dots> \<le> 18 * 1" using ln_le_minus_one [of "2::real"] by simp
  finally show ?thesis by simp
qed

lemma deviate_bound:
  fixes s1 :: int and c :: real
  assumes "1 \<le> s1" "s1 < 233280" "\<bar>c\<bar> \<le> 1"
  shows "\<bar>sqrt (- 2 * ln (of_int s1 / 233280)) * c\<bar> \<le> 6"
proof -
  let ?u = "real_of_int s1 / 233280"
  have u: "1 / 233280 \<le> ?u" "?u < 1" using assms by (simp_all add: field_simps)
  have "ln (1 / 233280) \<le> ln ?u" using u by (subst ln_le_cancel_iff) simp_all
  then have lo: "- 18 \<le> ln ?u" using ln_modulus by (simp add: ln_div)
  have hi: "ln ?u \<le> 0" using u by simp
  have "sqrt (- 2 * ln ?u) \<le> sqrt 36" using lo by (intro real_sqrt_le_mono) simp
  then have s6: "sqrt (- 2 * ln ?u) \<le> 6" by simp
  have s0: "0 \<le> sqrt (- 2 * ln ?u)" using hi by simp
  have "\<bar>sqrt (- 2 * ln ?u) * c\<bar> = sqrt (- 2 * ln ?u) * \<bar>c\<bar>" using s0 by (simp add: abs_mult)
  also have "\<dots> \<le> 6 * 1" using s6 s0 assms(3) by (intro mult_mono) simp_all
  finally show ?thesis by simp
qed

lemma box_muller_guarded:
  assumes "log_guarded r"
  shows "\<exists>z. \<bar>z\<bar> \<le> 6 \<and> box_muller r = Fin z"
proof -
  let ?s1 = "js_rem (double_int (double_int (seed r * 9301) + 49297)) 233280"
  let ?s2 = "js_rem (double_int (double_int (?s1 * 9301) + 49297)) 233280"
  have "0 < ?s1" using assms by (simp add: log_guarded_def SeededRandom_next_def Let_def)
  then have s1: "1 \<le> ?s1" "?s1 < 233280" using js_rem_positive by blast+
  let ?c = "cos (2 * pi * (real_of_int ?s2 / 233280))"
  let ?z = "sqrt (- 2 * ln (of_int ?s1 / 233280)) * ?c"
  have zb: "\<bar>?z\<bar> \<le> 6" using s1 by (intro deviate_bound) simp_all
  have u1pos: "0 < real_of_int ?s1 / 233280" using s1 by simp
  have lnneg: "ln (real_of_int ?s1 / 233280) \<le> 0" using s1 by simp
  have "box_muller r = Fin ?z"
    using u1pos lnneg s1
    by (simp add: box_muller_def SeededRandom_next_def split_beta Let_def Math_PI_def)
  with zb show ?thesis by blast
qed

lemma isFinite_box_muller [simp]: "log_guarded r \<Longrightarrow> isFinite (box_muller r)"
  using box_muller_guarded [of r] by (auto simp: isFinite_iff)

subsection \<open>Bounds of the computed activity\<close>

lemma decay_le_one:
  fixes T p h :: real
  assumes "0 \<le> h"
  shows "exp (- (0.002 * (if 37 < T then 1 + (T - 37) * 0.05 else 1) * (1 + \<bar>p - 7.4\<bar> * 0.1)) * h) \<le> 1"
proof -
  have "0 \<le> 0.002 * (if 37 < T then 1 + (T - 37) * 0.05 else 1) * (1 + \<bar>p - 7.4\<bar> * 0.1)"
    by (intro mult_nonneg_nonneg) auto
  from this assms
  have "0 \<le> (0.002 * (if 37 < T then 1 + (T - 37) * 0.05 else 1) * (1 + \<bar>p - 7.4\<bar> * 0.1)) * h"
    by (rule mult_nonneg_nonneg)
  then show ?thesis by (simp only: exp_le_one_iff neg_le_0_iff_le mult_minus_left)
qed

lemma calculateActivity_value:
  "calculateActivity EnzymeKineticsModel_new (Fin h) (Fin T) (Fin p) r =
     (Math_max (Fin 0)
        (Fin (95 * exp (- (0.002 * (if 37 < T then 1 + (T - 37) * 0.05 else 1)
                           * (1 + \<bar>p - 7.4\<bar> * 0.1)) * h))
           + (Fin 0 + box_muller r * Fin 0.5)),
      after_gaussian r)"
  by (simp add: calculateActivity_def EnzymeKineticsModel_new_def gaussian_box_muller
      minus_jsnum_def)

lemma calculateActivity_guarded:
  assumes "log_guarded r" "0 \<le> h" "isFinite T" "isFinite p"
  shows "\<exists>a. 0 \<le> a \<and> a \<le> 98 \<and> fst (calculateActivity EnzymeKineticsModel_new (Fin h) T p r) = Fin a"
proof -
  from assms obtain Tv pv where Tp: "T = Fin Tv" "p = Fin pv" by (auto simp: isFinite_iff)
  from box_muller_guarded [OF assms(1)] obtain z where z: "\<bar>z\<bar> \<le> 6" "box_muller r = Fin z"
    by blast
  define e where
    "e = exp (- (0.002 * (if 37 < Tv then 1 + (Tv - 37) * 0.05 else 1) * (1 + \<bar>pv - 7.4\<bar> * 0.1)) * h)"
  have e1: "e \<le> 1" unfolding e_def using assms(2) by (rule decay_le_one)
  have val: "fst (calculateActivity EnzymeKineticsModel_new (Fin h) T p r)
        = Fin (max 0 (95 * e + z * 0.5))"
    unfolding Tp calculateActivity_value e_def [symmetric] by (simp add: z)
  have "max 0 (95 * e + z * 0.5) \<le> 98" using e1 z(1) by simp
  with val show ?thesis by auto
qed

lemma snd_calculateActivity [simp]: "snd (calculateActivity m h T p r) = after_gaussian r"
  by (simp add: calculateActivity_def gaussian_box_muller split_beta Let_def)

lemma isFinite_calculateActivity [simp]:
  "log_guarded r \<Longrightarrow> 0 \<le> h \<Longrightarrow> isFinite T \<Longrightarrow> isFinite p \<Longrightarrow>
   isFinite (fst (calculateActivity EnzymeKineticsModel_new (Fin h) T p r))"
  using calculateActivity_guarded [of r h T p] by (auto simp: isFinite_iff)

lemma calculateActivity_lower [simp]:
  "log_guarded r \<Longrightarrow> 0 \<le> h \<Longrightarrow> isFinite T \<Longrightarrow> isFinite p \<Longrightarrow>
   Fin 0 \<le> fst (calculateActivity EnzymeKineticsModel_new (Fin h) T p r)"
  using calculateActivity_guarded [of r h T p] by auto

lemma calculateActivity_upper [simp]:
  "log_guarded r \<Longrightarrow> 0 \<le> h \<Longrightarrow> isFinite T \<Longrightarrow> isFinite p \<Longrightarrow>
   fst (calculateActivity EnzymeKineticsModel_new (Fin h) T p r) \<le> Fin 100"
  using calculateActivity_guarded [of r h T p] by auto


subsection \<open>One step of the simulator\<close>

lemma gaussians_guarded_8:
  "gaussians_guarded 8 r \<longleftrightarrow>
     log_guarded r
     \<and> log_guarded (after_gaussian r)
     \<and> log_guarded ((after_gaussian ^^ 2) r)
     \<and> log_guarded ((after_gaussian ^^ 3) r)
     \<and> log_guarded ((after_gaussian ^^ 4) r)
     \<and> log_guarded ((after_gaussian ^^ 5) r)
     \<and> log_guarded ((after_gaussian ^^ 6) r)
     \<and> log_guarded ((after_gaussian ^^ 7) r)"
  by (simp add: eval_nat_numeral funpow_swap1)

lemma update_sim_guarded:
  assumes ok: "simulator_ok s" and g: "gaussians_guarded 8 (sim_random s)"
  shows "metrics_in_bounds (Fin 70) (sim_metrics (update_sim now s))"
    and "simulator_ok (update_sim now s)"
    and "sim_random (update_sim now s) = (after_gaussian ^^ 8) (sim_random s)"
proof -
  from ok obtain h where h: "runningTime s = Fin h" "0 \<le> h"
    by (auto simp: simulator_ok_def isFinite_iff)
  note facts = ok [unfolded simulator_ok_def metrics_finite_def]
    g [unfolded gaussians_guarded_8]
  show "metrics_in_bounds (Fin 70) (sim_metrics (update_sim now s))"
    using facts h
    by (simp add: update_sim_def metrics_in_bounds_def split_beta Let_def gaussian_box_muller
        eval_nat_numeral)
  show "simulator_ok (update_sim now s)"
    using facts h
    by (simp add: update_sim_def simulator_ok_def metrics_finite_def split_beta Let_def
        gaussian_box_muller eval_nat_numeral)
  show "sim_random (update_sim now s) = (after_gaussian ^^ 8) (sim_random s)"
    by (simp add: update_sim_def split_beta Let_def gaussian_box_muller eval_nat_numeral)
qed


lemma gaussians_guarded_add:
  "gaussians_guarded (m + n) r \<longleftrightarrow>
     gaussians_guarded m r \<and> gaussians_guarded n ((after_gaussian ^^ m) r)"
  by (induction m arbitrary: r) (auto simp: funpow_swap1)

lemma trajectory_guarded:
  "simulator_ok s \<Longrightarrow> gaussians_guarded (8 * length clock) (sim_random s) \<Longrightarrow>
   list_all (metrics_in_bounds (Fin 70)) (trajectory clock s)"
proof (induction clock arbitrary: s)
  case Nil
  show ?case by simp
next
  case (Cons now clock)
  have "8 * length (now # clock) = 8 + 8 * length clock" by simp
  with Cons.prems(2)
  have g: "gaussians_guarded 8 (sim_random s)"
    "gaussians_guarded (8 * length clock) ((after_gaussian ^^ 8) (sim_random s))"
    by (simp_all only: gaussians_guarded_add)
  note step = update_sim_guarded [OF Cons.prems(1) g(1), of now]
  have "list_all (metrics_in_bounds (Fin 70)) (trajectory clock (update_sim now s))"
    using step(2) g(2) by (intro Cons.IH) (simp_all only: step(3))
  with step(1) show ?case by (simp add: update_def Let_def)
qed

subsection \<open>One step of the provider\<close>

lemma tick_reactor_guarded:
  assumes ok: "reactor_ok r" and u: "0 \<le> rnd 4" "rnd 4 < 1"
  shows "metrics_in_bounds (Fin 75) (currentMetrics (tick_reactor opt sel now rnd r))"
    and "reactor_ok (tick_reactor opt sel now rnd r)"
proof -
  from ok obtain h where h: "uptime r = Fin h" "0 \<le> h"
    by (auto simp: reactor_ok_def isFinite_iff)
  define e where "e = exp (- (0.002 * h))"
  have e: "0 < e" "e \<le> 1" using h(2) by (simp_all add: e_def)
  have act: "Fin 95 * Math_exp ((- Fin 0.002) * uptime r) + (Fin (rnd 4) - Fin 0.5) * Fin 0.5
      = Fin (95 * e + (rnd 4 - 0.5) * 0.5)"
    by (simp add: h e_def minus_jsnum_def)
  have act_le: "95 * e + (rnd 4 - 0.5) * 0.5 \<le> 100" using e u by (simp add: field_simps)
  note facts = ok [unfolded reactor_ok_def metrics_finite_def]
  show "metrics_in_bounds (Fin 75) (currentMetrics (tick_reactor opt sel now rnd r))"
    unfolding tick_reactor_def Let_def act
    using facts act_le
    by (simp add: metrics_in_bounds_def clamp_lower_trans clamp_upper_trans le_max_iff_disj)
  show "reactor_ok (tick_reactor opt sel now rnd r)"
    unfolding tick_reactor_def Let_def act
    using facts h
    by (simp add: reactor_ok_def metrics_finite_def)
qed

subsection \<open>Concrete seeds\<close>

lemma from_2907_steps:
  "after_gaussian \<lparr>seed = 2907\<rparr> = \<lparr>seed = 163001\<rparr>"
  "after_gaussian \<lparr>seed = 163001\<rparr> = \<lparr>seed = 190375\<rparr>"
  "after_gaussian \<lparr>seed = 190375\<rparr> = \<lparr>seed = 1509\<rparr>"
  "after_gaussian \<lparr>seed = 1509\<rparr> = \<lparr>seed = 22643\<rparr>"
  by (simp_all add: after_gaussian_seed js_rem_def)

lemma from_2907_guards:
  "log_guarded \<lparr>seed = 2907\<rparr>"
  "log_guarded \<lparr>seed = 163001\<rparr>"
  "log_guarded \<lparr>seed = 190375\<rparr>"
  "log_guarded \<lparr>seed = 1509\<rparr>"
  by (simp_all add: log_guarded_seed js_rem_def)

lemma from_12345_steps:
  "after_gaussian \<lparr>seed = 12345\<rparr> = \<lparr>seed = 3239\<rparr>"
  "after_gaussian \<lparr>seed = 3239\<rparr> = \<lparr>seed = 51493\<rparr>"
  "after_gaussian \<lparr>seed = 51493\<rparr> = \<lparr>seed = 47667\<rparr>"
  "after_gaussian \<lparr>seed = 47667\<rparr> = \<lparr>seed = 3281\<rparr>"
  "after_gaussian \<lparr>seed = 3281\<rparr> = \<lparr>seed = 76735\<rparr>"
  "after_gaussian \<lparr>seed = 76735\<rparr> = \<lparr>seed = 54909\<rparr>"
  "after_gaussian \<lparr>seed = 54909\<rparr> = \<lparr>seed = 156683\<rparr>"
  "after_gaussian \<lparr>seed = 156683\<rparr> = \<lparr>seed = 125737\<rparr>"
  "after_gaussian \<lparr>seed = 125737\<rparr> = \<lparr>seed = 111831\<rparr>"
  "after_gaussian \<lparr>seed = 111831\<rparr> = \<lparr>seed = 74645\<rparr>"
  "after_gaussian \<lparr>seed = 74645\<rparr> = \<lparr>seed = 42979\<rparr>"
  "after_gaussian \<lparr>seed = 42979\<rparr> = \<lparr>seed = 62913\<rparr>"
  "after_gaussian \<lparr>seed = 62913\<rparr> = \<lparr>seed = 68207\<rparr>"
  "after_gaussian \<lparr>seed = 68207\<rparr> = \<lparr>seed = 139501\<rparr>"
  "after_gaussian \<lparr>seed = 139501\<rparr> = \<lparr>seed = 219195\<rparr>"
  "after_gaussian \<lparr>seed = 219195\<rparr> = \<lparr>seed = 215129\<rparr>"
  by (simp_all add: after_gaussian_seed js_rem_def)

lemma from_12345_guards:
  "log_guarded \<lparr>seed = 12345\<rparr>"
  "log_guarded \<lparr>seed = 3239\<rparr>"
  "log_guarded \<lparr>seed = 51493\<rparr>"
  "log_guarded \<lparr>seed = 47667\<rparr>"
  "log_guarded \<lparr>seed = 3281\<rparr>"
  "log_guarded \<lparr>seed = 76735\<rparr>"
  "log_guarded \<lparr>seed = 54909\<rparr>"
  "log_guarded \<lparr>seed = 156683\<rparr>"
  "log_guarded \<lparr>seed = 125737\<rparr>"
  "log_guarded \<lparr>seed = 111831\<rparr>"
  "log_guarded \<lparr>seed = 74645\<rparr>"
  "log_guarded \<lparr>seed = 42979\<rparr>"
  "log_guarded \<lparr>seed = 62913\<rparr>"
  "log_guarded \<lparr>seed = 68207\<rparr>"
  "log_guarded \<lparr>seed = 139501\<rparr>"
  "log_guarded \<lparr>seed = 219195\<rparr>"
  by (simp_all add: log_guarded_seed js_rem_def)

lemma seeds_from_2907:
  "log_guarded \<lparr>seed = 2907\<rparr>"
  "log_guarded (after_gaussian \<lparr>seed = 2907\<rparr>)"
  "(after_gaussian ^^ 4) \<lparr>seed = 2907\<rparr> = \<lparr>seed = 22643\<rparr>"
  by (simp_all add: from_2907_steps from_2907_guards eval_nat_numeral)

lemma seeds_from_12345: "gaussians_guarded 16 \<lparr>seed = 12345\<rparr>"
  by (simp add: from_12345_steps from_12345_guards eval_nat_numeral)


subsection \<open>Failures of the bounds\<close>

lemma calculateActivity_zero_draw:
  assumes "isFinite T" "isFinite p"
  shows "fst (calculateActivity EnzymeKineticsModel_new (Fin h) T p \<lparr>seed = 22643\<rparr>) = PInf"
proof -
  from assms obtain Tv pv where Tp: "T = Fin Tv" "p = Fin pv" by (auto simp: isFinite_iff)
  show ?thesis unfolding Tp calculateActivity_value by (simp add: box_muller_zero_draw)
qed

lemma calculateActivity_negative_time:
  assumes "log_guarded r" "h \<le> - 4000" "isFinite T" "isFinite p"
  shows "\<not> fst (calculateActivity EnzymeKineticsModel_new (Fin h) T p r) \<le> Fin 100"
proof -
  from assms obtain Tv pv where Tp: "T = Fin Tv" "p = Fin pv" by (auto simp: isFinite_iff)
  from box_muller_guarded [OF assms(1)] obtain z where z: "\<bar>z\<bar> \<le> 6" "box_muller r = Fin z"
    by blast
  define k where
    "k = 0.002 * (if 37 < Tv then 1 + (Tv - 37) * 0.05 else 1) * (1 + \<bar>pv - 7.4\<bar> * 0.1)"
  have "0.002 * 1 * 1 \<le> k" unfolding k_def
    by (intro mult_mono) auto
  then have k: "0.002 \<le> k" by simp
  have "0.002 * 4000 \<le> k * (- h)" using k assms(2) by (intro mult_mono) simp_all
  then have "8 \<le> - k * h" by simp
  then have "1 + 8 \<le> exp (- k * h)" using exp_ge_add_one_self [of "- k * h"] by linarith
  then have big: "100 < 95 * exp (- k * h) + z * 0.5" using z(1) by simp
  have val: "fst (calculateActivity EnzymeKineticsModel_new (Fin h) T p r)
        = Fin (max 0 (95 * exp (- k * h) + z * 0.5))"
    unfolding Tp calculateActivity_value k_def [symmetric] by (simp add: z)
  show ?thesis unfolding val using big by simp
qed

lemma enzymeActivity_update:
  "enzymeActivity (fst (update now s))
     = fst (calculateActivity (enzymeModel s) (runningTime s + Fin 1 / Fin 3600)
         (temperature (sim_metrics s)
            + ((targetTemperature (sim_config s) - temperature (sim_metrics s)) * Fin 0.02
               + (Fin 0 + box_muller (sim_random s) * Fin 0.05)))
         (pH (sim_metrics s)
            + ((targetPH (sim_config s) - pH (sim_metrics s)) * Fin 0.01
               + (Fin 0 + box_muller (after_gaussian (sim_random s)) * Fin 0.02)))
         ((after_gaussian ^^ 4) (sim_random s)))"
  by (simp add: update_def update_sim_def split_beta Let_def gaussian_box_muller eval_nat_numeral
      funpow_swap1)

text \<open>
  C5 as stated fails. From a state within the bounds whose random source has seed 2907,
  the first draw of the sample taken for the enzyme activity is 0 and the activity after
  the tick is \<open>Infinity\<close>. From a state within the bounds whose running time is
  \<open>-5000\<close> hours, the activity after the tick exceeds 100.
\<close>

theorem update_bounds_counterexample:
  "metrics_in_bounds (Fin 70) (sim_metrics (sample_simulator 2907 (Fin 24)))
   \<and> enzymeActivity (fst (update 0 (sample_simulator 2907 (Fin 24)))) = PInf
   \<and> \<not> metrics_in_bounds (Fin 70) (fst (update 0 (sample_simulator 2907 (Fin 24))))
   \<and> metrics_in_bounds (Fin 70) (sim_metrics (sample_simulator 12345 (Fin (- 5000))))
   \<and> \<not> metrics_in_bounds (Fin 70) (fst (update 0 (sample_simulator 12345 (Fin (- 5000)))))"
proof -
  have start: "metrics_in_bounds (Fin 70) (sim_metrics (sample_simulator sd running))"
    for sd running
    by (simp add: metrics_in_bounds_def sample_simulator_def sample_metrics_def)
  have inf: "enzymeActivity (fst (update 0 (sample_simulator 2907 (Fin 24)))) = PInf"
    unfolding enzymeActivity_update
    by (simp add: sample_simulator_def sample_metrics_def initial_config_def SeededRandom_new_def
        seeds_from_2907 calculateActivity_zero_draw)
  have big: "\<not> enzymeActivity (fst (update 0 (sample_simulator 12345 (Fin (- 5000))))) \<le> Fin 100"
    unfolding enzymeActivity_update
    by (simp add: sample_simulator_def sample_metrics_def initial_config_def SeededRandom_new_def
        calculateActivity_negative_time from_12345_steps from_12345_guards eval_nat_numeral)
  show ?thesis using start inf big by (simp add: metrics_in_bounds_def)
qed

text \<open>
  C5, amended. Take a simulator with finite metrics and targets, the kinetics model as
  constructed and a finite running time that is not negative, and suppose that each of
  the eight Gaussian samples of a tick takes a positive first draw. Then after the tick
  the enzyme activity and the product yield are in [0,100], the dissolved oxygen is in
  [70,100], the flow rate is at least 0 and the substrate concentration at least 5, and
  the simulator satisfies the same conditions again; so the bounds hold after every tick
  of a run whose samples all take a positive first draw. For a reactor of the provider
  with finite metrics and targets and a finite uptime that is not negative, the same
  bounds hold after its periodic update, with dissolved oxygen in [75,100], whenever the
  draws of \<open>Math.random()\<close> lie in [0,1), and the reactor satisfies the conditions again.
\<close>

theorem tick_keeps_bounds:
  "(simulator_ok s \<and> gaussians_guarded 8 (sim_random s) \<longrightarrow>
      metrics_in_bounds (Fin 70) (fst (update now s)) \<and> simulator_ok (snd (update now s)))
   \<and> (simulator_ok s \<and> gaussians_guarded (8 * length clock) (sim_random s) \<longrightarrow>
      list_all (metrics_in_bounds (Fin 70)) (trajectory clock s))
   \<and> (reactor_ok r \<and> list_all (\<lambda>k. 0 \<le> rnd k \<and> rnd k < 1) [0..<9] \<longrightarrow>
      metrics_in_bounds (Fin 75) (currentMetrics (tick_reactor opt sel now rnd r))
      \<and> reactor_ok (tick_reactor opt sel now rnd r))"
proof (intro conjI impI)
  assume a: "simulator_ok s \<and> gaussians_guarded 8 (sim_random s)"
  then show "metrics_in_bounds (Fin 70) (fst (update now s))"
    using update_sim_guarded(1) [of s now] by (simp add: update_def Let_def)
  from a show "simulator_ok (snd (update now s))"
    using update_sim_guarded(2) [of s now] by (simp add: update_def Let_def)
next
  assume "simulator_ok s \<and> gaussians_guarded (8 * length clock) (sim_random s)"
  then show "list_all (metrics_in_bounds (Fin 70)) (trajectory clock s)"
    using trajectory_guarded [of s clock] by simp
next
  assume a: "reactor_ok r \<and> list_all (\<lambda>k. 0 \<le> rnd k \<and> rnd k < 1) [0..<9]"
  then have u: "0 \<le> rnd 4" "rnd 4 < 1" by (simp_all add: list_all_iff)
  from a u show "metrics_in_bounds (Fin 75) (currentMetrics (tick_reactor opt sel now rnd r))"
    using tick_reactor_guarded(1) [of r rnd opt sel now] by simp
  from a u show "reactor_ok (tick_reactor opt sel now rnd r)"
    using tick_reactor_guarded(2) [of r rnd opt sel now] by simp
qed

theorem tick_keeps_bounds_witness:
  "simulator_ok (sample_simulator 12345 (Fin 24))
   \<and> gaussians_guarded 8 (sim_random (sample_simulator 12345 (Fin 24)))
   \<and> gaussians_guarded (8 * length [0, 1000 :: int]) (sim_random (sample_simulator 12345 (Fin 24)))
   \<and> reactor_ok sample_reactor
   \<and> list_all (\<lambda>k. (0::real) \<le> 1 / 2 \<and> (1 / 2 :: real) < 1) [0..<9]
   \<and> metrics_in_bounds (Fin 70) (fst (update 0 (sample_simulator 12345 (Fin 24))))
   \<and> simulator_ok (snd (update 0 (sample_simulator 12345 (Fin 24))))
   \<and> list_all (metrics_in_bounds (Fin 70)) (trajectory [0, 1000] (sample_simulator 12345 (Fin 24)))
   \<and> metrics_in_bounds (Fin 75)
        (currentMetrics (tick_reactor False None 0 (\<lambda>k. 1 / 2) sample_reactor))
   \<and> reactor_ok (tick_reactor False None 0 (\<lambda>k. 1 / 2) sample_reactor)"
proof -
  have ok: "simulator_ok (sample_simulator 12345 (Fin 24))"
    by (simp add: simulator_ok_def sample_simulator_def metrics_finite_def sample_metrics_def
        initial_config_def)
  have g16: "gaussians_guarded (8 * length [0, 1000 :: int])
      (sim_random (sample_simulator 12345 (Fin 24)))"
    using seeds_from_12345 by (simp add: sample_simulator_def SeededRandom_new_def)
  then have g8: "gaussians_guarded 8 (sim_random (sample_simulator 12345 (Fin 24)))"
    using gaussians_guarded_add [of 8 8] by simp
  have rok: "reactor_ok sample_reactor"
    by (simp add: reactor_ok_def sample_reactor_def metrics_finite_def sample_metrics_def
        initial_config_def)
  have draws: "list_all (\<lambda>k. (0::real) \<le> 1 / 2 \<and> (1 / 2 :: real) < 1) [0..<9]"
    by (simp add: list_all_iff)
  show ?thesis
    using tick_keeps_bounds
      [of "sample_simulator 12345 (Fin 24)" 0 "[0, 1000]" sample_reactor "\<lambda>k. 1 / 2" False None]
      ok g8 g16 rok draws
    by simp
qed

subsection \<open>Calls through references\<close>

lemma call_random_fst [simp]: "fst (call_random a f h) = fst (f (randoms h a))"
  by (simp add: call_random_def split_beta)

lemma call_random_snd [simp]:
  "snd (call_random a f h) = h\<lparr>randoms := (randoms h)(a := snd (f (randoms h a)))\<rparr>"
  by (simp add: call_random_def split_beta)

lemma run_calls_separate:
  "a \<noteq> b \<Longrightarrow>
   run_calls a b sched h =
     (rng_run (map snd (filter fst sched)) (randoms h a),
      rng_run (map snd (filter (\<lambda>c. \<not> fst c) sched)) (randoms h b))"
proof (induction sched arbitrary: h)
  case Nil
  show ?case by simp
next
  case (Cons c sched)
  obtain first call where c: "c = (first, call)" by (cases c)
  show ?case
    unfolding c using Cons.prems
    by (cases first) (simp_all add: Cons.IH [OF Cons.prems] split_beta)
qed

lemma Date_now_simps [simp]:
  "fst (Date_now h) = readings h (clock_reads h)"
  "snd (Date_now h) = h\<lparr>clock_reads := Suc (clock_reads h)\<rparr>"
  by (simp_all add: Date_now_def)

lemma update_at_fst:
  "obj_enzymeModel_random (simulators h this) = obj_random (simulators h this) \<Longrightarrow>
   fst (update_at this h)
     = sim_metrics (update_sim (readings h (clock_reads h)) (simulator_at h this))"
  by (simp add: update_at_def update_sim_def simulator_at_def split_beta Let_def
      gaussian_box_muller)

lemma update_at_heap:
  "obj_enzymeModel_random (simulators h this) = obj_random (simulators h this) \<Longrightarrow>
   snd (update_at this h)
     = h\<lparr>randoms := (randoms h)(obj_random (simulators h this) :=
            sim_random (update_sim (readings h (clock_reads h)) (simulator_at h this))),
          clock_reads := Suc (clock_reads h),
          simulators := (simulators h)(this := (simulators h this)
            \<lparr>obj_metrics := sim_metrics (update_sim (readings h (clock_reads h)) (simulator_at h this)),
             obj_runningTime := runningTime (update_sim (readings h (clock_reads h)) (simulator_at h this))\<rparr>)\<rparr>"
  by (simp add: update_at_def update_sim_def simulator_at_def split_beta Let_def
      gaussian_box_muller)


lemma simulator_at_update_at:
  assumes "obj_enzymeModel_random (simulators h this) = obj_random (simulators h this)"
  shows "simulator_at (snd (update_at this h)) this
           = update_sim (readings h (clock_reads h)) (simulator_at h this)"
  unfolding update_at_heap [OF assms]
  by (simp add: simulator_at_def update_sim_def split_beta Let_def)

lemma simulator_at_update_at_other:
  assumes "obj_enzymeModel_random (simulators h this) = obj_random (simulators h this)"
    and "other \<noteq> this" "obj_random (simulators h other) \<noteq> obj_random (simulators h this)"
  shows "simulator_at (snd (update_at this h)) other = simulator_at h other"
  unfolding update_at_heap [OF assms(1)] using assms(2,3)
  by (simp add: simulator_at_def)

lemma update_at_frame:
  assumes "obj_enzymeModel_random (simulators h this) = obj_random (simulators h this)"
  shows "readings (snd (update_at this h)) = readings h"
    and "obj_random (simulators (snd (update_at this h)) q) = obj_random (simulators h q)"
    and "obj_enzymeModel_random (simulators (snd (update_at this h)) q)
           = obj_enzymeModel_random (simulators h q)"
  unfolding update_at_heap [OF assms] by simp_all

subsection \<open>Construction on the heap\<close>

lemma new_SeededRandom_simps [simp]:
  "fst (new_SeededRandom sd h) = allocated h"
  "snd (new_SeededRandom sd h)
     = h\<lparr>randoms := (randoms h)(allocated h := SeededRandom_new sd),
         allocated := Suc (allocated h)\<rparr>"
  by (simp_all add: new_SeededRandom_def)

lemma new_ReactorSimulator_ref: "fst (new_ReactorSimulator reactorId sd h) = Suc (allocated h)"
  by (simp add: new_ReactorSimulator_def split_beta Let_def)

lemma new_ReactorSimulator_frame:
  "allocated (snd (new_ReactorSimulator reactorId sd h)) = Suc (Suc (allocated h))"
  "readings (snd (new_ReactorSimulator reactorId sd h)) = readings h"
  "q \<noteq> Suc (allocated h) \<Longrightarrow>
     simulators (snd (new_ReactorSimulator reactorId sd h)) q = simulators h q"
  "a \<noteq> allocated h \<Longrightarrow> randoms (snd (new_ReactorSimulator reactorId sd h)) a = randoms h a"
  "obj_random (simulators (snd (new_ReactorSimulator reactorId sd h)) (Suc (allocated h)))
     = allocated h"
  "obj_enzymeModel_random (simulators (snd (new_ReactorSimulator reactorId sd h)) (Suc (allocated h)))
     = allocated h"
  by (simp_all add: new_ReactorSimulator_def split_beta Let_def)

lemma new_ReactorSimulator_value:
  assumes "readings h (clock_reads h) = t" "readings h (Suc (clock_reads h)) = t"
    "readings h (Suc (Suc (clock_reads h))) = t"
  shows "simulator_at (snd (new_ReactorSimulator reactorId sd h)) (Suc (allocated h))
           = ReactorSimulator_new reactorId sd t"
  using assms
  by (simp add: new_ReactorSimulator_def ReactorSimulator_new_def simulator_at_def split_beta
      Let_def gaussian_box_muller del: Date_new.simps)


subsection \<open>Two simulators side by side\<close>

lemma trajectory_replicate_Suc:
  "trajectory (replicate (Suc n) t) s
     = sim_metrics (update_sim t s) # trajectory (replicate n t) (update_sim t s)"
  by (simp add: update_def Let_def)

lemma take_trajectory:
  "take k (trajectory (replicate n t) s) = trajectory (replicate (min k n) t) s"
proof (induction n arbitrary: k s)
  case 0
  show ?case by simp
next
  case (Suc n)
  show ?case
  proof (cases k)
    case 0
    then show ?thesis by simp
  next
    case (Suc j)
    then show ?thesis
      by (simp only: trajectory_replicate_Suc take_Suc_Cons Suc.IH min_Suc_Suc)
  qed
qed

lemma length_trajectory [simp]: "length (trajectory ticks s) = length ticks"
  by (induction ticks arbitrary: s) (simp_all add: split_beta)

text \<open>
  Two simulators that share no random source, under a clock that always reads \<open>t\<close>:
  whatever the order of the ticks, each returns the metrics it would return alone.
\<close>

lemma run_updates_separate:
  assumes "a \<noteq> b"
    and "obj_random (simulators h a) \<noteq> obj_random (simulators h b)"
    and "obj_enzymeModel_random (simulators h a) = obj_random (simulators h a)"
    and "obj_enzymeModel_random (simulators h b) = obj_random (simulators h b)"
    and "\<forall>k. readings h k = t"
  shows "run_updates a b ticks h =
     (trajectory (replicate (length (filter (\<lambda>w. w) ticks)) t) (simulator_at h a),
      trajectory (replicate (length (filter Not ticks)) t) (simulator_at h b))"
  using assms
proof (induction ticks arbitrary: h)
  case Nil
  show ?case by simp
next
  case (Cons first ticks)
  note ab = Cons.prems
  have now: "readings h (clock_reads h) = t" using ab(5) by simp
  show ?case
  proof (cases first)
    case True
    let ?h = "snd (update_at a h)"
    have IH: "run_updates a b ticks ?h =
       (trajectory (replicate (length (filter (\<lambda>w. w) ticks)) t) (simulator_at ?h a),
        trajectory (replicate (length (filter Not ticks)) t) (simulator_at ?h b))"
      using ab by (intro Cons.IH) (simp_all add: update_at_frame [OF ab(3)])
    have A: "simulator_at ?h a = update_sim t (simulator_at h a)"
      using simulator_at_update_at [OF ab(3)] now by simp
    have B: "simulator_at ?h b = simulator_at h b"
      using ab by (intro simulator_at_update_at_other) auto
    have m: "fst (update_at a h) = sim_metrics (update_sim t (simulator_at h a))"
      using update_at_fst [OF ab(3)] now by simp
    show ?thesis
      using True by (simp add: split_beta IH A B m trajectory_replicate_Suc del: replicate_Suc)
  next
    case False
    let ?h = "snd (update_at b h)"
    have IH: "run_updates a b ticks ?h =
       (trajectory (replicate (length (filter (\<lambda>w. w) ticks)) t) (simulator_at ?h a),
        trajectory (replicate (length (filter Not ticks)) t) (simulator_at ?h b))"
      using ab by (intro Cons.IH) (simp_all add: update_at_frame [OF ab(4)])
    have B: "simulator_at ?h b = update_sim t (simulator_at h b)"
      using simulator_at_update_at [OF ab(4)] now by simp
    have A: "simulator_at ?h a = simulator_at h a"
      using ab by (intro simulator_at_update_at_other) auto
    have m: "fst (update_at b h) = sim_metrics (update_sim t (simulator_at h b))"
      using update_at_fst [OF ab(4)] now by simp
    show ?thesis
      using False by (simp add: split_beta IH A B m trajectory_replicate_Suc del: replicate_Suc)
  qed
qed

text \<open>The clock is read: the metrics returned by a tick carry the reading as their time.\<close>

lemma update_at_timestamp:
  "timestamp (fst (update_at this h)) = Date_new (Fin (of_int (readings h (clock_reads h))))"
  by (simp add: update_at_def split_beta Let_def del: Date_new.simps)

text \<open>
  C3. Take any heap. Two random sources made with the same seed, called in any
  interleaving, return the same values whenever they receive the same sequence of calls.
  Two simulators made one after the other with the same seed (and any reactor
  identifiers), under a clock that always reads \<open>t\<close>, and ticked in any interleaving,
  return the same metrics tick for tick: of the two lists of returned metrics the shorter
  is the beginning of the longer, and they are equal when both simulators were ticked
  equally often.
\<close>

theorem same_seed_same_values:
  "(let (a, h1) = new_SeededRandom sd h;
        (b, h2) = new_SeededRandom sd h1;
        (vs, ws) = run_calls a b calls h2
    in map snd (filter fst calls) = map snd (filter (\<lambda>c. \<not> fst c) calls) \<longrightarrow> vs = ws)
   \<and> ((\<forall>k. readings h k = t) \<longrightarrow>
        (let (a, h1) = new_ReactorSimulator idA sd h;
             (b, h2) = new_ReactorSimulator idB sd h1;
             (ms, ns) = run_updates a b ticks h2
         in take (length ns) ms = take (length ms) ns
            \<and> (length (filter (\<lambda>w. w) ticks) = length (filter Not ticks) \<longrightarrow> ms = ns)))"
proof (intro conjI impI)
  let ?h1 = "snd (new_SeededRandom sd h)"
  let ?h2 = "snd (new_SeededRandom sd ?h1)"
  have "run_calls (allocated h) (Suc (allocated h)) calls ?h2 =
     (rng_run (map snd (filter fst calls)) (randoms ?h2 (allocated h)),
      rng_run (map snd (filter (\<lambda>c. \<not> fst c) calls)) (randoms ?h2 (Suc (allocated h))))"
    by (intro run_calls_separate) simp
  then show "let (a, h1) = new_SeededRandom sd h;
        (b, h2) = new_SeededRandom sd h1;
        (vs, ws) = run_calls a b calls h2
    in map snd (filter fst calls) = map snd (filter (\<lambda>c. \<not> fst c) calls) \<longrightarrow> vs = ws"
    by (simp add: split_beta)
next
  assume fixed: "\<forall>k. readings h k = t"
  let ?a = "Suc (allocated h)"
  let ?h1 = "snd (new_ReactorSimulator idA sd h)"
  let ?b = "Suc (allocated ?h1)"
  let ?h2 = "snd (new_ReactorSimulator idB sd ?h1)"
  let ?S = "ReactorSimulator_new idA sd t"
  note f1 = new_ReactorSimulator_frame [where reactorId = idA and sd = sd and h = h]
  note f2 = new_ReactorSimulator_frame [where reactorId = idB and sd = sd and h = ?h1]
  have ab: "?a \<noteq> ?b" by (simp add: f1)
  have sim_a: "simulators ?h2 ?a = simulators ?h1 ?a" using ab by (intro f2(3))
  have ra: "obj_random (simulators ?h2 ?a) = allocated h" by (simp add: sim_a f1)
  have rb: "obj_random (simulators ?h2 ?b) = allocated ?h1" by (simp add: f2)
  have ea: "obj_enzymeModel_random (simulators ?h2 ?a) = allocated h" by (simp add: sim_a f1)
  have eb: "obj_enzymeModel_random (simulators ?h2 ?b) = allocated ?h1" by (simp add: f2)
  have rdiff: "allocated h \<noteq> allocated ?h1" by (simp add: f1)
  have fixed1: "\<forall>k. readings ?h1 k = t" using fixed by (simp add: f1)
  have fixed2: "\<forall>k. readings ?h2 k = t" using fixed1 by (simp add: f2)
  have A1: "simulator_at ?h1 ?a = ?S"
    using fixed by (intro new_ReactorSimulator_value) simp_all
  have ra1: "obj_random (simulators ?h1 ?a) = allocated h" by (simp add: f1)
  have rand: "randoms ?h2 (allocated h) = randoms ?h1 (allocated h)"
    using rdiff by (intro f2(4))
  have "simulator_at ?h2 ?a = simulator_at ?h1 ?a"
    by (simp add: simulator_at_def sim_a Let_def ra1 rand)
  with A1 have A: "simulator_at ?h2 ?a = ?S" by simp
  have "simulator_at ?h2 ?b = ReactorSimulator_new idB sd t"
    using fixed1 by (intro new_ReactorSimulator_value) simp_all
  also have "\<dots> = ?S" unfolding ReactorSimulator_new_def by (rule refl)
  finally have B: "simulator_at ?h2 ?b = ?S" .
  have run: "run_updates ?a ?b ticks ?h2 =
     (trajectory (replicate (length (filter (\<lambda>w. w) ticks)) t) ?S,
      trajectory (replicate (length (filter Not ticks)) t) ?S)"
    using run_updates_separate [of ?a ?b ?h2 t ticks] ab ra rb ea eb rdiff fixed2
    by (simp add: A B)
  show "let (a, h1) = new_ReactorSimulator idA sd h;
             (b, h2) = new_ReactorSimulator idB sd h1;
             (ms, ns) = run_updates a b ticks h2
         in take (length ns) ms = take (length ms) ns
            \<and> (length (filter (\<lambda>w. w) ticks) = length (filter Not ticks) \<longrightarrow> ms = ns)"
    by (simp add: split_beta new_ReactorSimulator_ref run take_trajectory min.commute)
qed

theorem same_seed_same_values_witness:
  "(\<forall>k. readings sample_heap k = 1700000000000)
   \<and> (let (a, h1) = new_SeededRandom 12345 sample_heap;
          (b, h2) = new_SeededRandom 12345 h1;
          (vs, ws) = run_calls a b
            [(True, Call_next), (False, Call_next), (False, Call_gaussian (Fin 0) (Fin 1)),
             (True, Call_gaussian (Fin 0) (Fin 1))] h2
      in vs = ws)
   \<and> (let (a, h1) = new_ReactorSimulator ''RXN-001'' 12345 sample_heap;
          (b, h2) = new_ReactorSimulator ''RXN-002'' 12345 h1;
          (ms, ns) = run_updates a b [True, False, False, True] h2
      in ms = ns)"
proof -
  have fixed: "\<forall>k. readings sample_heap k = 1700000000000"
    by (simp add: sample_heap_def)
  from same_seed_same_values
    [of 12345 sample_heap
        "[(True, Call_next), (False, Call_next), (False, Call_gaussian (Fin 0) (Fin 1)),
          (True, Call_gaussian (Fin 0) (Fin 1))]"
        1700000000000 "''RXN-001''" "''RXN-002''" "[True, False, False, True]"]
  show ?thesis using fixed by (simp add: split_beta)
qed

end
